theory Spec2Isabelle
  imports Main "HOL-Library.Sublist"
begin

section \<open>Python values\<close>

text \<open>
  A Python \<open>str\<close> is a sequence of Unicode code points, so it is modelled as a list of
  naturals; \<open>str\<close> turns an ASCII literal of the source into that form.
\<close>

type_synonym pystr = "nat list"

definition str :: "string \<Rightarrow> pystr" where
  "str s = map of_char s"

text \<open>
  What \<open>json.load\<close> can return. A float is kept as mantissa and binary exponent (or as
  one of the three special values the parser accepts); the program only ever asks whether
  it is zero.
\<close>

datatype pyfloat = Finite int int | Infinity bool | NaN

datatype json =
    JNull
  | JBool bool
  | JInt int
  | JFloat pyfloat
  | JStr pystr
  | JList "json list"
  | JObj "(pystr \<times> json) list"

text \<open>
  A \<open>dict\<close> keeps its items in insertion order: an association list. \<open>d[k] = v\<close>
  overwrites the value of an existing key in place and appends a new key at the end;
  \<open>d.update(other)\<close> does that for every item of \<open>other\<close>, in order; \<open>k in d\<close> and
  \<open>d[k]\<close> are \<open>map_of d k\<close>.
\<close>

type_synonym 'v dict = "(pystr \<times> 'v) list"

fun dict_set :: "'v dict \<Rightarrow> pystr \<Rightarrow> 'v \<Rightarrow> 'v dict" where
  "dict_set [] k v = [(k, v)]"
| "dict_set ((k', v') # d) k v =
     (if k' = k then (k, v) # d else (k', v') # dict_set d k v)"

definition dict_update :: "'v dict \<Rightarrow> 'v dict \<Rightarrow> 'v dict" where
  "dict_update d other = fold (\<lambda>(k, v) acc. dict_set acc k v) other d"

definition keys :: "'v dict \<Rightarrow> pystr set" where
  "keys d = fst ` set d"

text \<open>The parser never returns a dict with a repeated key.\<close>

definition unique_keys :: "'v dict \<Rightarrow> bool" where
  "unique_keys d = distinct (map fst d)"

fun nested_unique :: "json \<Rightarrow> bool" where
  "nested_unique (JObj items) = unique_keys items"
| "nested_unique _ = True"

definition parsed_object :: "json dict \<Rightarrow> bool" where
  "parsed_object items = (unique_keys items \<and> list_all (\<lambda>(k, v). nested_unique v) items)"

text \<open>Python truth value of a parsed value (\<open>if x:\<close>).\<close>

fun truthy :: "json \<Rightarrow> bool" where
  "truthy JNull = False"
| "truthy (JBool b) = b"
| "truthy (JInt i) = (i \<noteq> 0)"
| "truthy (JFloat (Finite m e)) = (m \<noteq> 0)"
| "truthy (JFloat _) = True"
| "truthy (JStr s) = (s \<noteq> [])"
| "truthy (JList xs) = (xs \<noteq> [])"
| "truthy (JObj items) = (items \<noteq> [])"

section \<open>Module state\<close>

text \<open>
  The literal \<open>DEFAULT_SETTINGS\<close> creates three dict objects: the top-level one and the
  two nested ones under \<open>naming_rules\<close> and \<open>backup_options\<close>. The top-level object is
  only ever read and copied (\<open>DEFAULT_SETTINGS.copy()\<close>), so its items are a constant;
  the two nested objects are reachable from every shallow copy and are mutated through
  them, so they live in a store, and a top-level item holds either a value of its own or
  a reference into that store.
\<close>

datatype objid = NamingRules | BackupOptions

datatype slot = Val json | Ref objid

datatype exn =
    OSError | JSONDecodeError | UnicodeDecodeError | RecursionError
  | AttributeError | KeyError | TypeError

text \<open>
  File-system calls that change the disk, as the program issues them. \<open>WriteText p s\<close> is
  \<open>open(p, "w")\<close> followed by the writes of \<open>s\<close>; \<open>WriteBytes\<close> the same with \<open>"wb"\<close>;
  \<open>DumpJson p v\<close> is \<open>open(p, "w")\<close> followed by \<open>json.dump(v, f, indent=4)\<close>.
\<close>

datatype fsop =
    MakeDirs pystr
  | WriteText pystr pystr
  | WriteBytes pystr pystr
  | CopyFile pystr pystr
  | Copy2 pystr pystr
  | DumpJson pystr "json dict"

text \<open>Calls into the presentation layer, one constructor per call site.\<close>

datatype dialog =
    OperationFailed exn        \<comment> \<open>\<open>safe_operation\<close>: showerror("Error", "Operation failed: ...")\<close>
  | SettingsCorrupted          \<comment> \<open>showerror("Error", "Settings file is corrupted. Resetting to defaults.")\<close>
  | NoFolderName               \<comment> \<open>showerror("Error", "No Folder Name specified.")\<close>
  | NoFileName                 \<comment> \<open>showerror("Error", "No File Name specified.")\<close>
  | BackupWarning exn          \<comment> \<open>showwarning("Warning", "Could not create backup: ...")\<close>
  | NoFileTypeSelected         \<comment> \<open>showinfo("Generate Mod", "No file type selected. No files created.")\<close>
  | OpenLocationPrompt pystr   \<comment> \<open>\<open>self.open_file_location_prompt(full_folder_path)\<close>\<close>

record world =
  DEFAULT_MAIN_MOD_FOLDER :: pystr
  objs :: "objid \<Rightarrow> json dict"
  settings_data :: "slot dict"
  trace :: "fsop list"
  dialogs :: "dialog list"

definition DEFAULT_SETTINGS :: "pystr \<Rightarrow> slot dict" where
  "DEFAULT_SETTINGS folder =
     [(str ''main_mods_folder'', Val (JStr folder)),
      (str ''generated_mods_enabled'', Val (JBool False)),
      (str ''temp_mod_timer'', Val (JStr (str ''Disabled''))),
      (str ''naming_rules'', Ref NamingRules),
      (str ''show_open_location_prompt'', Val (JBool True)),
      (str ''show_save_success'', Val (JBool True)),
      (str ''backup_options'', Ref BackupOptions),
      (str ''init_py_in_scripts'', Val (JBool True))]"

definition default_objs :: "objid \<Rightarrow> json dict" where
  "default_objs a =
     (case a of
        NamingRules \<Rightarrow>
          [(str ''no_spaces_folders'', JBool False),
           (str ''no_spaces_files'', JBool False),
           (str ''convert_spaces_underscores'', JBool False)]
      | BackupOptions \<Rightarrow> [(str ''always_backup'', JBool True)])"

text \<open>The state after the module's top-level code (lines 46 to 66) has run.\<close>

definition init_world :: "pystr \<Rightarrow> world" where
  "init_world folder =
     \<lparr>DEFAULT_MAIN_MOD_FOLDER = folder, objs = default_objs,
      settings_data = DEFAULT_SETTINGS folder, trace = [], dialogs = []\<rparr>"

text \<open>The value a top-level item stands for, and a dict read through its references.\<close>

definition deref :: "(objid \<Rightarrow> json dict) \<Rightarrow> slot \<Rightarrow> json" where
  "deref h s = (case s of Val v \<Rightarrow> v | Ref a \<Rightarrow> JObj (h a))"

definition snapshot :: "(objid \<Rightarrow> json dict) \<Rightarrow> slot dict \<Rightarrow> json dict" where
  "snapshot h d = map (\<lambda>(k, s). (k, deref h s)) d"

definition defaults_now :: "world \<Rightarrow> json dict" where
  "defaults_now w = snapshot (objs w) (DEFAULT_SETTINGS (DEFAULT_MAIN_MOD_FOLDER w))"

definition settings_now :: "world \<Rightarrow> json dict" where
  "settings_now w = snapshot (objs w) (settings_data w)"

text \<open>
  \<open>safe_operation\<close>: the wrapped function's exception becomes an error dialog and the
  call returns \<open>None\<close>. Every function it wraps here returns \<open>None\<close> itself, so the
  wrapper's result is the state alone. A function body returns \<open>Inl (e, w)\<close> when it
  raises \<open>e\<close> in state \<open>w\<close>.
\<close>

definition safe_operation :: "(exn \<times> world) + (world \<times> 'a) \<Rightarrow> world" where
  "safe_operation r =
     (case r of
        Inl (e, w) \<Rightarrow> w\<lparr>dialogs := dialogs w @ [OperationFailed e]\<rparr>
      | Inr (w, x) \<Rightarrow> w)"

section \<open>Settings store\<close>

text \<open>
  What \<open>Path(SETTINGS_FILE).exists()\<close>, \<open>open\<close> and \<open>json.load\<close> find on disk:
  \<^item> \<open>NoFile\<close>: \<open>exists()\<close> answers \<open>False\<close>;
  \<^item> \<open>ExistsFails\<close>: \<open>exists()\<close> itself raises \<open>OSError\<close> (line 98, before the \<open>try\<close>);
  \<^item> \<open>Unreadable\<close>: \<open>open\<close> or the read inside \<open>json.load\<close> raises \<open>OSError\<close>;
  \<^item> \<open>NotUtf8\<close>: the bytes are not UTF-8, so the read raises \<open>UnicodeDecodeError\<close>,
    a \<open>ValueError\<close> that is neither \<open>JSONDecodeError\<close> nor \<open>OSError\<close>;
  \<^item> \<open>NotJson\<close>: the text is not JSON, \<open>json.load\<close> raises \<open>JSONDecodeError\<close>;
  \<^item> \<open>TooDeep\<close>: the text nests deeper than the interpreter's recursion limit,
    \<open>json.load\<close> raises \<open>RecursionError\<close>;
  \<^item> \<open>Json v\<close>: \<open>json.load\<close> returns \<open>v\<close>.
\<close>

datatype settings_file =
  NoFile | ExistsFails | Unreadable | NotUtf8 | NotJson | TooDeep | Json json

text \<open>
  The body of the loop of \<open>load_settings\<close> (lines 106 to 109). A dict found in
  \<open>settings_data\<close> is either one of the shared nested objects, updated in the store, or
  a dict that an earlier iteration stored from the file, which nothing else refers to.
\<close>

definition merge_item :: "pystr \<Rightarrow> json \<Rightarrow> world \<Rightarrow> world" where
  "merge_item key v w =
     (let replace = w\<lparr>settings_data := dict_set (settings_data w) key (Val v)\<rparr> in
      case v of
        JObj items \<Rightarrow>
          (case map_of (settings_data w) key of
             Some (Ref a) \<Rightarrow> w\<lparr>objs := (objs w)(a := dict_update (objs w a) items)\<rparr>
           | Some (Val (JObj d)) \<Rightarrow>
               w\<lparr>settings_data :=
                   dict_set (settings_data w) key (Val (JObj (dict_update d items)))\<rparr>
           | _ \<Rightarrow> replace)
      | _ \<Rightarrow> replace)"

definition load_settings_try :: "settings_file \<Rightarrow> world \<Rightarrow> (exn \<times> world) + (world \<times> unit)" where
  "load_settings_try f w =
     (let fresh = w\<lparr>settings_data := DEFAULT_SETTINGS (DEFAULT_MAIN_MOD_FOLDER w)\<rparr> in
      case f of
        NoFile \<Rightarrow> Inr (fresh, ())
      | Unreadable \<Rightarrow> Inr (fresh\<lparr>dialogs := dialogs w @ [SettingsCorrupted]\<rparr>, ())
      | NotJson \<Rightarrow> Inr (fresh\<lparr>dialogs := dialogs w @ [SettingsCorrupted]\<rparr>, ())
      | ExistsFails \<Rightarrow> Inl (OSError, w)
      | NotUtf8 \<Rightarrow> Inl (UnicodeDecodeError, w)
      | TooDeep \<Rightarrow> Inl (RecursionError, w)
      | Json loaded_settings \<Rightarrow>
          (case loaded_settings of
             JObj items \<Rightarrow> Inr (fold (\<lambda>(key, v). merge_item key v) items fresh, ())
           | _ \<Rightarrow> Inl (AttributeError, fresh)))"

definition load_settings :: "settings_file \<Rightarrow> world \<Rightarrow> world" where
  "load_settings f w = safe_operation (load_settings_try f w)"

text \<open>
  The platform: \<open>os.path.join\<close> and \<open>os.path.basename\<close> (which differ between
  \<open>posixpath\<close> and \<open>ntpath\<close>), and whether a file-system call raises \<open>OSError\<close>, which
  may depend on the calls that went before. A call that succeeds is recorded in \<open>trace\<close>;
  a call that raises leaves the state as it was.
\<close>

record platform =
  path_join :: "pystr \<Rightarrow> pystr \<Rightarrow> pystr"
  path_basename :: "pystr \<Rightarrow> pystr"
  fails :: "fsop list \<Rightarrow> fsop \<Rightarrow> bool"

definition fs_call :: "platform \<Rightarrow> fsop \<Rightarrow> world \<Rightarrow> (exn \<times> world) + world" where
  "fs_call os call w =
     (if fails os (trace w) call then Inl (OSError, w)
      else Inr (w\<lparr>trace := trace w @ [call]\<rparr>))"

definition bind :: "'e + 'a \<Rightarrow> ('a \<Rightarrow> 'e + 'b) \<Rightarrow> 'e + 'b" where
  "bind m f = (case m of Inl e \<Rightarrow> Inl e | Inr x \<Rightarrow> f x)"

definition SETTINGS_FILE :: pystr where
  "SETTINGS_FILE = str ''settings.json''"

text \<open>
  \<open>save_settings\<close>; \<open>present\<close> is the answer of \<open>Path(SETTINGS_FILE).exists()\<close>. The copy
  and the write stand in one \<open>try\<close> whose handler logs and re-raises.
\<close>

definition save_settings_try :: "platform \<Rightarrow> bool \<Rightarrow> world \<Rightarrow> (exn \<times> world) + (world \<times> unit)" where
  "save_settings_try os present w =
     bind (if present then fs_call os (Copy2 SETTINGS_FILE (SETTINGS_FILE @ str ''.bak'')) w
           else Inr w)
       (\<lambda>w1. bind (fs_call os (DumpJson SETTINGS_FILE (settings_now w1)) w1)
          (\<lambda>w2. Inr (w2, ())))"

definition save_settings :: "platform \<Rightarrow> bool \<Rightarrow> world \<Rightarrow> world" where
  "save_settings os present w = safe_operation (save_settings_try os present w)"

section \<open>Naming rule engine\<close>

text \<open>\<open>name.replace(" ", new)\<close>.\<close>

definition replace_spaces :: "pystr \<Rightarrow> pystr \<Rightarrow> pystr" where
  "replace_spaces new name = concat (map (\<lambda>c. if c = 32 then new else [c]) name)"

text \<open>
  \<open>settings_data["naming_rules"][rule]\<close>, read as a condition. Subscripting a value that
  is not a dict with a string raises \<open>TypeError\<close>.
\<close>

definition naming_rule :: "world \<Rightarrow> pystr \<Rightarrow> exn + bool" where
  "naming_rule w rule =
     (case map_of (settings_data w) (str ''naming_rules'') of
        None \<Rightarrow> Inl KeyError
      | Some s \<Rightarrow>
          (case deref (objs w) s of
             JObj d \<Rightarrow> (case map_of d rule of None \<Rightarrow> Inl KeyError | Some v \<Rightarrow> Inr (truthy v))
           | _ \<Rightarrow> Inl TypeError))"

definition apply_naming_rules :: "world \<Rightarrow> pystr \<Rightarrow> bool \<Rightarrow> exn + pystr" where
  "apply_naming_rules w name is_folder =
     bind (naming_rule w (str ''no_spaces_folders'')) (\<lambda>no_spaces_folders.
       let name = (if no_spaces_folders \<and> is_folder then replace_spaces [] name else name) in
       bind (naming_rule w (str ''no_spaces_files'')) (\<lambda>no_spaces_files.
         let name = (if no_spaces_files \<and> \<not> is_folder then replace_spaces [] name else name) in
         bind (naming_rule w (str ''convert_spaces_underscores'')) (\<lambda>convert_spaces_underscores.
           Inr (if convert_spaces_underscores then replace_spaces (str ''_'') name else name))))"

text \<open>The three steps as the specification words them.\<close>

definition remove_all_spaces :: "pystr \<Rightarrow> pystr" where
  "remove_all_spaces name = filter (\<lambda>c. c \<noteq> 32) name"

definition spaces_to_underscores :: "pystr \<Rightarrow> pystr" where
  "spaces_to_underscores name = map (\<lambda>c. if c = 32 then 95 else c) name"

definition reference_rules :: "bool \<Rightarrow> bool \<Rightarrow> bool \<Rightarrow> bool \<Rightarrow> pystr \<Rightarrow> pystr" where
  "reference_rules no_spaces_folders no_spaces_files convert_spaces_underscores is_folder name =
     (let step1 = (if is_folder \<and> no_spaces_folders then remove_all_spaces name else name);
          step2 = (if \<not> is_folder \<and> no_spaces_files then remove_all_spaces step1 else step1)
      in if convert_spaces_underscores then spaces_to_underscores step2 else step2)"

text \<open>
  The naming rules as the settings window stores them (lines 446 to 448), for stating
  examples.
\<close>

definition with_rules :: "bool \<Rightarrow> bool \<Rightarrow> bool \<Rightarrow> world \<Rightarrow> world" where
  "with_rules a b c w =
     w\<lparr>objs := (objs w)(NamingRules :=
           dict_set (dict_set (dict_set (objs w NamingRules)
             (str ''no_spaces_folders'') (JBool a))
             (str ''no_spaces_files'') (JBool b))
             (str ''convert_spaces_underscores'') (JBool c))\<rparr>"

section \<open>Mod scaffolder\<close>

text \<open>The Tk variables \<open>generate_mod\<close> reads from \<open>self\<close>.\<close>

record app =
  folder_name_var :: pystr
  file_name_var :: pystr
  all_var :: bool
  script_var :: bool
  tuning_var :: bool
  package_var :: bool

text \<open>\<open>str.isspace\<close> on one code point, and \<open>str.strip()\<close>.\<close>

definition isspace :: "nat \<Rightarrow> bool" where
  "isspace c \<longleftrightarrow>
     (9 \<le> c \<and> c \<le> 13) \<or> (28 \<le> c \<and> c \<le> 32) \<or> c = 133 \<or> c = 160 \<or> c = 5760
     \<or> (8192 \<le> c \<and> c \<le> 8202) \<or> c = 8232 \<or> c = 8233 \<or> c = 8239 \<or> c = 8287 \<or> c = 12288"

definition strip :: "pystr \<Rightarrow> pystr" where
  "strip s = rev (dropWhile isspace (rev (dropWhile isspace s)))"

text \<open>\<open>settings_data.get(key, True)\<close>, read as a condition.\<close>

definition get_flag :: "world \<Rightarrow> pystr \<Rightarrow> bool" where
  "get_flag w key =
     (case map_of (settings_data w) key of
        None \<Rightarrow> True
      | Some s \<Rightarrow> truthy (deref (objs w) s))"

text \<open>
  \<open>settings_data["backup_options"].get("always_backup", True)\<close>, read as a condition;
  a value without a \<open>get\<close> method raises \<open>AttributeError\<close>.
\<close>

definition backup_always :: "world \<Rightarrow> exn + bool" where
  "backup_always w =
     (case map_of (settings_data w) (str ''backup_options'') of
        None \<Rightarrow> Inl KeyError
      | Some s \<Rightarrow>
          (case deref (objs w) s of
             JObj d \<Rightarrow>
               (case map_of d (str ''always_backup'') of
                  None \<Rightarrow> Inr True
                | Some v \<Rightarrow> Inr (truthy v))
           | _ \<Rightarrow> Inl AttributeError))"

definition init_text :: pystr where
  "init_text = str ''# __init__.py - Marks this folder as a Python package.'' @ [10]"

definition modinfo_text :: "pystr \<Rightarrow> pystr" where
  \<open>modinfo_text cleaned_file_name =
     str ''modinfo = {'' @ [10]
     @ str ''    "Name": "'' @ cleaned_file_name @ str ''",'' @ [10]
     @ str ''    "Author": "YourNameHere",'' @ [10]
     @ str ''    "Version": "1.0",'' @ [10]
     @ str ''}'' @ [10]\<close>

text \<open>A text made of lines, each ended by a newline.\<close>

definition unlines :: "pystr list \<Rightarrow> pystr" where
  "unlines ls = concat (map (\<lambda>l. l @ [10]) ls)"

definition script_text :: pystr where
  "script_text = str ''# Placeholder script file'' @ [10]"

definition tuning_text :: pystr where
  "tuning_text = str ''<!-- Placeholder tuning file -->'' @ [10]"

text \<open>
  The nested functions of \<open>generate_mod\<close>. Each takes the state and the list
  \<open>created_files\<close> and returns both, or the exception it re-raises.
\<close>

definition write_and_record ::
  "platform \<Rightarrow> fsop \<Rightarrow> pystr \<Rightarrow> world \<times> pystr list \<Rightarrow> (exn \<times> world) + (world \<times> pystr list)"
where
  "write_and_record os call path st =
     (case st of (w, created_files) \<Rightarrow>
        bind (fs_call os call w) (\<lambda>w'. Inr (w', created_files @ [path])))"

definition create_init_py ::
  "platform \<Rightarrow> pystr \<Rightarrow> world \<times> pystr list \<Rightarrow> (exn \<times> world) + (world \<times> pystr list)"
where
  "create_init_py os full_folder_path st =
     (case st of (w, created_files) \<Rightarrow>
        if get_flag w (str ''init_py_in_scripts'') then
          (let scripts_subfolder = path_join os full_folder_path (str ''Scripts'') in
           bind (fs_call os (MakeDirs scripts_subfolder) w) (\<lambda>w1.
             let init_file_path = path_join os scripts_subfolder (str ''__init__.py'') in
             write_and_record os (WriteText init_file_path init_text) init_file_path
               (w1, created_files)))
        else
          (let init_file_path = path_join os full_folder_path (str ''__init__.py'') in
           write_and_record os (WriteText init_file_path init_text) init_file_path
             (w, created_files)))"

definition create_modinfo_py ::
  "platform \<Rightarrow> pystr \<Rightarrow> pystr \<Rightarrow> world \<times> pystr list \<Rightarrow> (exn \<times> world) + (world \<times> pystr list)"
where
  "create_modinfo_py os full_folder_path cleaned_file_name st =
     (let modinfo_file_path = path_join os full_folder_path (str ''modinfo.py'') in
      write_and_record os (WriteText modinfo_file_path (modinfo_text cleaned_file_name))
        modinfo_file_path st)"

definition create_script ::
  "platform \<Rightarrow> pystr \<Rightarrow> pystr \<Rightarrow> world \<times> pystr list \<Rightarrow> (exn \<times> world) + (world \<times> pystr list)"
where
  "create_script os full_folder_path file_name st =
     (case st of (w, created_files) \<Rightarrow>
        let scripts_subfolder = path_join os full_folder_path (str ''Scripts'') in
        bind (fs_call os (MakeDirs scripts_subfolder) w) (\<lambda>w1.
          case apply_naming_rules w1 file_name False of
            Inl e \<Rightarrow> Inl (e, w1)
          | Inr script_file_name \<Rightarrow>
              (let script_file_path = path_join os scripts_subfolder (script_file_name @ str ''.py'')
               in write_and_record os (WriteText script_file_path script_text) script_file_path
                    (w1, created_files))))"

definition create_tuning ::
  "platform \<Rightarrow> pystr \<Rightarrow> pystr \<Rightarrow> world \<times> pystr list \<Rightarrow> (exn \<times> world) + (world \<times> pystr list)"
where
  "create_tuning os full_folder_path file_name st =
     (case st of (w, created_files) \<Rightarrow>
        let tuning_subfolder = path_join os full_folder_path (str ''Tuning'') in
        bind (fs_call os (MakeDirs tuning_subfolder) w) (\<lambda>w1.
          case apply_naming_rules w1 file_name False of
            Inl e \<Rightarrow> Inl (e, w1)
          | Inr tuning_file_name \<Rightarrow>
              (let tuning_file_path = path_join os tuning_subfolder (tuning_file_name @ str ''.xml'')
               in write_and_record os (WriteText tuning_file_path tuning_text) tuning_file_path
                    (w1, created_files))))"

definition create_package ::
  "platform \<Rightarrow> pystr \<Rightarrow> pystr \<Rightarrow> world \<times> pystr list \<Rightarrow> (exn \<times> world) + (world \<times> pystr list)"
where
  "create_package os full_folder_path file_name st =
     (case st of (w, created_files) \<Rightarrow>
        (case apply_naming_rules w file_name False of
           Inl e \<Rightarrow> Inl (e, w)
         | Inr package_file_name \<Rightarrow>
             (let package_file_path =
                    path_join os full_folder_path (package_file_name @ str ''.package'')
              in write_and_record os (WriteBytes package_file_path []) package_file_path
                   (w, created_files))))"

text \<open>Lines 959 to 969: the files of the selected types.\<close>

definition create_types ::
  "platform \<Rightarrow> app \<Rightarrow> pystr \<Rightarrow> pystr \<Rightarrow> world \<times> pystr list
     \<Rightarrow> (exn \<times> world) + (world \<times> pystr list)"
where
  "create_types os self full_folder_path file_name st =
     (if all_var self then
        bind (create_script os full_folder_path file_name st) (\<lambda>st.
          bind (create_tuning os full_folder_path file_name st) (\<lambda>st.
            create_package os full_folder_path file_name st))
      else
        bind (if script_var self then create_script os full_folder_path file_name st
              else Inr st) (\<lambda>st.
          bind (if tuning_var self then create_tuning os full_folder_path file_name st
                else Inr st) (\<lambda>st.
            if package_var self then create_package os full_folder_path file_name st
            else Inr st)))"

text \<open>Lines 956 to 969: the package marker, then the files of the selected types.\<close>

definition create_selected ::
  "platform \<Rightarrow> app \<Rightarrow> pystr \<Rightarrow> pystr \<Rightarrow> world \<times> pystr list
     \<Rightarrow> (exn \<times> world) + (world \<times> pystr list)"
where
  "create_selected os self full_folder_path file_name st =
     bind (if all_var self \<or> script_var self \<or> get_flag (fst st) (str ''init_py_in_scripts'')
           then create_init_py os full_folder_path st else Inr st)
       (create_types os self full_folder_path file_name)"

text \<open>
  Lines 857 to 969, for names that passed the two checks: the cleaned names, the target
  directory and the files. The result is the target directory and \<open>created_files\<close>.
\<close>

definition scaffold ::
  "platform \<Rightarrow> app \<Rightarrow> pystr \<Rightarrow> pystr \<Rightarrow> world
     \<Rightarrow> (exn \<times> world) + (world \<times> pystr \<times> pystr list)"
where
  "scaffold os self folder_name file_name w =
     (case apply_naming_rules w folder_name True of
        Inl e \<Rightarrow> Inl (e, w)
      | Inr cleaned_folder_name \<Rightarrow>
     (case apply_naming_rules w file_name False of
        Inl e \<Rightarrow> Inl (e, w)
      | Inr cleaned_file_name \<Rightarrow>
     (case map_of (settings_data w) (str ''main_mods_folder'') of
        None \<Rightarrow> Inl (KeyError, w)
      | Some s \<Rightarrow>
     (case deref (objs w) s of
        JStr main_mods_folder \<Rightarrow>
          (let full_folder_path = path_join os main_mods_folder cleaned_folder_name in
           bind (fs_call os (MakeDirs full_folder_path) w) (\<lambda>w.
             bind (create_modinfo_py os full_folder_path cleaned_file_name (w, [])) (\<lambda>st.
               bind (create_selected os self full_folder_path file_name st)
                 (\<lambda>(w, created_files). Inr (w, full_folder_path, created_files)))))
      | _ \<Rightarrow> Inl (TypeError, w)))))"

text \<open>Lines 977 to 980: the copies into the backup folder.\<close>

fun copy_created :: "platform \<Rightarrow> pystr \<Rightarrow> pystr list \<Rightarrow> world \<Rightarrow> (exn \<times> world) + world" where
  "copy_created os backup_folder [] w = Inr w"
| "copy_created os backup_folder (fpath # created_files) w =
     bind (fs_call os
             (CopyFile fpath (path_join os backup_folder (path_basename os fpath))) w)
       (copy_created os backup_folder created_files)"

text \<open>
  Lines 972 to 984. The inner \<open>try\<close> turns an exception of the backup into a warning
  dialog; reading the setting stands outside it.
\<close>

definition backup_created ::
  "platform \<Rightarrow> pystr \<Rightarrow> pystr list \<Rightarrow> world \<Rightarrow> (exn \<times> world) + world"
where
  "backup_created os full_folder_path created_files w =
     (case backup_always w of
        Inl e \<Rightarrow> Inl (e, w)
      | Inr always \<Rightarrow>
          if always then
            (let backup_folder = full_folder_path @ str ''_Backup'' in
             case bind (fs_call os (MakeDirs backup_folder) w)
                    (copy_created os backup_folder created_files) of
               Inl (e, w') \<Rightarrow> Inr (w'\<lparr>dialogs := dialogs w' @ [BackupWarning e]\<rparr>)
             | Inr w' \<Rightarrow> Inr w')
          else Inr w)"

text \<open>
  Lines 987 to 995. What the user does inside the prompt belongs to the presentation
  layer; the call is recorded.
\<close>

definition report :: "pystr \<Rightarrow> pystr list \<Rightarrow> world \<Rightarrow> world" where
  "report full_folder_path created_files w =
     (if created_files = [] then w\<lparr>dialogs := dialogs w @ [NoFileTypeSelected]\<rparr>
      else if get_flag w (str ''show_open_location_prompt'')
      then w\<lparr>dialogs := dialogs w @ [OpenLocationPrompt full_folder_path]\<rparr>
      else w)"

text \<open>
  The body of \<open>generate_mod\<close>. Its result is the state and the final value of the local
  \<open>created_files\<close> (empty when the function returns before the list exists).
\<close>

definition generate_mod_try ::
  "platform \<Rightarrow> app \<Rightarrow> world \<Rightarrow> (exn \<times> world) + (world \<times> pystr list)"
where
  "generate_mod_try os self w =
     (let folder_name = strip (folder_name_var self);
          file_name = strip (file_name_var self)
      in if folder_name = [] then Inr (w\<lparr>dialogs := dialogs w @ [NoFolderName]\<rparr>, [])
         else if file_name = [] then Inr (w\<lparr>dialogs := dialogs w @ [NoFileName]\<rparr>, [])
         else
           bind (scaffold os self folder_name file_name w)
             (\<lambda>(w, full_folder_path, created_files).
                bind (backup_created os full_folder_path created_files w)
                  (\<lambda>w. Inr (report full_folder_path created_files w, created_files))))"

definition generate_mod :: "platform \<Rightarrow> app \<Rightarrow> world \<Rightarrow> world" where
  "generate_mod os self w = safe_operation (generate_mod_try os self w)"

text \<open>\<open>posixpath.join\<close> with two arguments and \<open>posixpath.basename\<close>, for examples.\<close>

definition posix_join :: "pystr \<Rightarrow> pystr \<Rightarrow> pystr" where
  "posix_join a b =
     (if take 1 b = [47] then b
      else if a = [] \<or> last a = 47 then a @ b
      else a @ [47] @ b)"

fun posix_basename :: "pystr \<Rightarrow> pystr" where
  "posix_basename [] = []"
| "posix_basename (c # p) = (if 47 \<in> set p then posix_basename p else if c = 47 then p else c # p)"

definition posix :: "(fsop list \<Rightarrow> fsop \<Rightarrow> bool) \<Rightarrow> platform" where
  "posix f = \<lparr>path_join = posix_join, path_basename = posix_basename, fails = f\<rparr>"

section \<open>Auxiliary definitions for the proofs\<close>

text \<open>\<open>isinstance(v, dict)\<close> on a parsed value.\<close>

fun is_dict :: "json \<Rightarrow> bool" where
  "is_dict (JObj items) = True"
| "is_dict _ = False"

text \<open>The key under which \<open>DEFAULT_SETTINGS\<close> holds each nested object, and back.\<close>

definition key_of :: "objid \<Rightarrow> pystr" where
  "key_of a =
     (case a of NamingRules \<Rightarrow> str ''naming_rules'' | BackupOptions \<Rightarrow> str ''backup_options'')"

definition obj_at :: "pystr \<Rightarrow> objid option" where
  "obj_at k =
     (if k = str ''naming_rules'' then Some NamingRules
      else if k = str ''backup_options'' then Some BackupOptions
      else None)"

text \<open>
  One iteration of the loop while the item under \<open>key\<close> is still the default one, and the
  closed form of the whole loop: the item left under a key and the content of a nested
  object.
\<close>

definition merge_default :: "pystr \<Rightarrow> json \<Rightarrow> world \<Rightarrow> world" where
  "merge_default k v w =
     (case (v, obj_at k) of
        (JObj l, Some a) \<Rightarrow> w\<lparr>objs := (objs w)(a := dict_update (objs w a) l)\<rparr>
      | _ \<Rightarrow> w\<lparr>settings_data := dict_set (settings_data w) k (Val v)\<rparr>)"

definition merged_slot :: "json dict \<Rightarrow> slot option \<Rightarrow> pystr \<Rightarrow> slot option" where
  "merged_slot items old k =
     (case map_of items k of
        None \<Rightarrow> old
      | Some v \<Rightarrow> (case (v, obj_at k) of (JObj l, Some a) \<Rightarrow> old | _ \<Rightarrow> Some (Val v)))"

definition merged_obj :: "json dict \<Rightarrow> json dict \<Rightarrow> objid \<Rightarrow> json dict" where
  "merged_obj items old a =
     (case map_of items (key_of a) of Some (JObj l) \<Rightarrow> dict_update old l | _ \<Rightarrow> old)"

text \<open>A settings file of an older schema, with one key the defaults do not have.\<close>

definition example_file :: "json dict" where
  "example_file =
     [(str ''naming_rules'', JObj [(str ''no_spaces_files'', JBool True)]),
      (str ''temp_mod_timer'', JNull),
      (str ''theme'', JObj [(str ''dark'', JBool True)])]"

text \<open>A platform on which every \<open>shutil.copy2\<close> fails and every other call succeeds.\<close>

definition copy_denied :: platform where
  "copy_denied = posix (\<lambda>tr call. case call of Copy2 src dst \<Rightarrow> True | _ \<Rightarrow> False)"

text \<open>A platform on which no call fails.\<close>

definition permissive :: platform where
  "permissive = posix (\<lambda>tr call. False)"

text \<open>A write of the package marker's content, whatever the path.\<close>

fun is_marker :: "fsop \<Rightarrow> bool" where
  "is_marker (WriteText path content) = (content = init_text)"
| "is_marker _ = False"

text \<open>
  The calls of a list that get through, in order, up to the first one the platform
  refuses.
\<close>

fun permitted_prefix :: "platform \<Rightarrow> fsop list \<Rightarrow> fsop list \<Rightarrow> fsop list" where
  "permitted_prefix os tr [] = []"
| "permitted_prefix os tr (call # calls) =
     (if fails os tr call then [] else call # permitted_prefix os (tr @ [call]) calls)"

text \<open>The calls the backup step sets out to make.\<close>

definition backup_calls :: "platform \<Rightarrow> pystr \<Rightarrow> pystr list \<Rightarrow> fsop list" where
  "backup_calls os full_folder_path created_files =
     MakeDirs (full_folder_path @ str ''_Backup'')
     # map (\<lambda>fpath. CopyFile fpath
              (path_join os (full_folder_path @ str ''_Backup'') (path_basename os fpath)))
         created_files"

text \<open>
  What a step may do to the state and to \<open>created_files\<close>: append calls that satisfy \<open>P\<close>
  to the trace and, when it returns, append paths to the list.
\<close>

definition step_ok ::
  "(fsop \<Rightarrow> bool) \<Rightarrow> world \<Rightarrow> pystr list \<Rightarrow> (exn \<times> world) + (world \<times> pystr list) \<Rightarrow> bool"
where
  "step_ok P w cf r =
     (case r of
        Inl (e, w') \<Rightarrow> \<exists>calls. w' = w\<lparr>trace := trace w @ calls\<rparr> \<and> list_all P calls
      | Inr (w', cf') \<Rightarrow>
          \<exists>calls paths. w' = w\<lparr>trace := trace w @ calls\<rparr> \<and> list_all P calls
                         \<and> cf' = cf @ paths)"

text \<open>
  Where \<open>create_init_py\<close> puts the package marker and the calls it makes for it, given
  the value of the \<open>init_py_in_scripts\<close> setting.
\<close>

definition marker_path :: "platform \<Rightarrow> pystr \<Rightarrow> bool \<Rightarrow> pystr" where
  "marker_path os full_folder_path in_scripts =
     (if in_scripts
      then path_join os (path_join os full_folder_path (str ''Scripts'')) (str ''__init__.py'')
      else path_join os full_folder_path (str ''__init__.py''))"

definition marker_calls :: "platform \<Rightarrow> pystr \<Rightarrow> bool \<Rightarrow> fsop list" where
  "marker_calls os full_folder_path in_scripts =
     (if in_scripts
      then [MakeDirs (path_join os full_folder_path (str ''Scripts'')),
            WriteText (marker_path os full_folder_path True) init_text]
      else [WriteText (marker_path os full_folder_path False) init_text])"

text \<open>The calls \<open>shutil.copyfile\<close> makes.\<close>

fun is_copy :: "fsop \<Rightarrow> bool" where
  "is_copy (CopyFile src dst) = True"
| "is_copy _ = False"

text \<open>
  The request of the specification's example: folder "Test Mod" (typed with surrounding
  blanks), file "Test File", only the package box ticked. And a platform on which every
  \<open>shutil.copyfile\<close> fails.
\<close>

definition example_request :: app where
  "example_request =
     \<lparr>folder_name_var = str '' Test Mod '', file_name_var = str ''Test File'',
      all_var = False, script_var = False, tuning_var = False, package_var = True\<rparr>"

definition copyfile_denied :: platform where
  "copyfile_denied = posix (\<lambda>tr call. is_copy call)"

section \<open>Proofs\<close>

subsection \<open>Dicts and the loop of load_settings\<close>

lemma map_of_dict_set: "map_of (dict_set d k v) = (map_of d)(k \<mapsto> v)"
  by (induction d) auto

lemma keys_dom: "keys d = dom (map_of d)"
  by (simp add: keys_def dom_map_of_conv_image_fst)

lemma map_of_fold_dict_set:
  "distinct (map fst other) \<Longrightarrow>
   map_of (fold (\<lambda>(k, v) acc. dict_set acc k v) other d) x =
     (case map_of other x of None \<Rightarrow> map_of d x | Some y \<Rightarrow> Some y)"
proof (induction other arbitrary: d)
  case Nil
  then show ?case by simp
next
  case (Cons kv other)
  obtain k v where kv: "kv = (k, v)" by (cases kv)
  from Cons.prems kv have d: "distinct (map fst other)" and nk: "k \<notin> fst ` set other" by auto
  from nk have nokey: "map_of other k = None" by (simp add: map_of_eq_None_iff)
  show ?case
    using Cons.IH [OF d, of "dict_set d k v"] nokey
    by (simp add: kv map_of_dict_set split: option.splits)
qed

lemma map_of_dict_update:
  "unique_keys other \<Longrightarrow> map_of (dict_update d other) = map_of d ++ map_of other"
  by (rule ext) (simp add: dict_update_def unique_keys_def map_of_fold_dict_set map_add_def)

lemma obj_at_key_of: "obj_at k = Some a \<longleftrightarrow> k = key_of a"
  by (cases a) (auto simp: obj_at_def key_of_def str_def)

lemma default_ref: "map_of (DEFAULT_SETTINGS f) k = Some (Ref a) \<longleftrightarrow> obj_at k = Some a"
  by (cases a) (auto simp: DEFAULT_SETTINGS_def obj_at_def str_def split: if_splits)

lemma default_no_dict: "map_of (DEFAULT_SETTINGS f) k \<noteq> Some (Val (JObj d))"
  by (auto simp: DEFAULT_SETTINGS_def str_def split: if_splits)

lemma merge_item_default:
  assumes "map_of (settings_data w) k = map_of (DEFAULT_SETTINGS f) k"
  shows "merge_item k v w = merge_default k v w"
proof (cases "obj_at k")
  case None
  then have "\<And>a. map_of (settings_data w) k \<noteq> Some (Ref a)"
    using assms default_ref [of f k] by simp
  moreover have "\<And>d. map_of (settings_data w) k \<noteq> Some (Val (JObj d))"
    using assms default_no_dict [of f k] by simp
  ultimately show ?thesis
    using None
    by (auto simp: merge_item_def merge_default_def Let_def
        split: json.splits option.splits slot.splits)
next
  case (Some a)
  then have "map_of (settings_data w) k = Some (Ref a)"
    using assms default_ref [of f k a] by simp
  then show ?thesis
    using Some by (simp add: merge_item_def merge_default_def Let_def split: json.splits)
qed


lemma merge_default_fields:
  "trace (merge_default k v w) = trace w"
  "dialogs (merge_default k v w) = dialogs w"
  "DEFAULT_MAIN_MOD_FOLDER (merge_default k v w) = DEFAULT_MAIN_MOD_FOLDER w"
  by (auto simp: merge_default_def split: json.splits option.splits)

lemma merge_default_other:
  "k' \<noteq> k \<Longrightarrow> map_of (settings_data (merge_default k v w)) k' = map_of (settings_data w) k'"
  by (auto simp: merge_default_def map_of_dict_set split: json.splits option.splits)

lemma merge_default_same:
  "map_of (settings_data (merge_default k v w)) k = merged_slot [(k, v)] (map_of (settings_data w) k) k"
  by (auto simp: merge_default_def merged_slot_def map_of_dict_set split: json.splits option.splits)

lemma obj_at_key: "obj_at (key_of a) = Some a"
  by (simp add: obj_at_key_of)

lemma merge_default_objs:
  "objs (merge_default k v w) a = merged_obj [(k, v)] (objs w a) a"
proof (cases "k = key_of a")
  case True
  then show ?thesis
    by (simp add: merge_default_def merged_obj_def obj_at_key split: json.splits)
next
  case False
  then have "obj_at k \<noteq> Some a" by (simp add: obj_at_key_of)
  with False show ?thesis
    by (auto simp: merge_default_def merged_obj_def split: json.splits option.splits)
qed

lemma load_loop:
  assumes "distinct (map fst items)"
    and "\<forall>k \<in> fst ` set items. map_of (settings_data w) k = map_of (DEFAULT_SETTINGS f) k"
  shows "(\<forall>k. map_of (settings_data (fold (\<lambda>(key, v). merge_item key v) items w)) k
              = merged_slot items (map_of (settings_data w) k) k)
       \<and> (\<forall>a. objs (fold (\<lambda>(key, v). merge_item key v) items w) a = merged_obj items (objs w a) a)
       \<and> trace (fold (\<lambda>(key, v). merge_item key v) items w) = trace w
       \<and> dialogs (fold (\<lambda>(key, v). merge_item key v) items w) = dialogs w
       \<and> DEFAULT_MAIN_MOD_FOLDER (fold (\<lambda>(key, v). merge_item key v) items w)
           = DEFAULT_MAIN_MOD_FOLDER w"
  using assms
proof (induction items arbitrary: w)
  case Nil
  then show ?case by (simp add: merged_slot_def merged_obj_def)
next
  case (Cons kv items)
  obtain k v where kv: "kv = (k, v)" by (cases kv)
  let ?w = "merge_default k v w"
  from Cons.prems kv have dist: "distinct (map fst items)" and nk: "k \<notin> fst ` set items"
    by auto
  from nk have nokey: "map_of items k = None" by (simp add: map_of_eq_None_iff)
  have step: "merge_item k v w = ?w"
    using Cons.prems(2) kv by (intro merge_item_default [of w k f v]) simp
  have rest: "\<forall>k' \<in> fst ` set items. map_of (settings_data ?w) k' = map_of (DEFAULT_SETTINGS f) k'"
  proof
    fix k' assume k': "k' \<in> fst ` set items"
    with nk have "k' \<noteq> k" by auto
    moreover from k' Cons.prems(2) have "map_of (settings_data w) k' = map_of (DEFAULT_SETTINGS f) k'"
      by auto
    ultimately show "map_of (settings_data ?w) k' = map_of (DEFAULT_SETTINGS f) k'"
      by (simp add: merge_default_other)
  qed
  note IH = Cons.IH [OF dist rest]
  have fold_eq: "fold (\<lambda>(key, v). merge_item key v) (kv # items) w
                 = fold (\<lambda>(key, v). merge_item key v) items ?w"
    by (simp add: kv step)
  have slots: "merged_slot items (map_of (settings_data ?w) k') k'
               = merged_slot (kv # items) (map_of (settings_data w) k') k'" for k'
  proof (cases "k' = k")
    case True
    then show ?thesis
      using nokey by (simp add: kv merge_default_same merged_slot_def)
  next
    case False
    then show ?thesis
      by (simp add: kv merge_default_other merged_slot_def)
  qed
  have objects: "merged_obj items (objs ?w a) a = merged_obj (kv # items) (objs w a) a" for a
  proof (cases "key_of a = k")
    case True
    then show ?thesis
      using nokey by (simp add: kv merge_default_objs merged_obj_def)
  next
    case False
    then show ?thesis
      by (simp add: kv merge_default_objs merged_obj_def)
  qed
  show ?case
    unfolding fold_eq using IH by (simp add: slots objects merge_default_fields)
qed


lemma map_of_snapshot: "map_of (snapshot h d) k = map_option (deref h) (map_of d k)"
  by (induction d) (auto simp: snapshot_def)

lemma default_is_dict:
  "(\<exists>d. map_of (defaults_now w) k = Some (JObj d)) \<longleftrightarrow> obj_at k \<noteq> None"
  by (auto simp: defaults_now_def map_of_snapshot DEFAULT_SETTINGS_def obj_at_def deref_def str_def)

lemma default_dict_value:
  "obj_at k = Some a \<Longrightarrow> map_of (defaults_now w) k = Some (JObj (objs w a))"
  using default_ref [of "DEFAULT_MAIN_MOD_FOLDER w" k a]
  by (simp add: defaults_now_def map_of_snapshot deref_def)

lemma load_object_try:
  "load_settings_try (Json (JObj items)) w = Inr (load_settings (Json (JObj items)) w, ())"
  by (simp add: load_settings_def load_settings_try_def safe_operation_def Let_def)

lemma load_object:
  assumes "unique_keys items"
  shows "map_of (settings_data (load_settings (Json (JObj items)) w)) k
         = merged_slot items (map_of (DEFAULT_SETTINGS (DEFAULT_MAIN_MOD_FOLDER w)) k) k"
    and "objs (load_settings (Json (JObj items)) w) a = merged_obj items (objs w a) a"
    and "trace (load_settings (Json (JObj items)) w) = trace w"
    and "dialogs (load_settings (Json (JObj items)) w) = dialogs w"
    and "DEFAULT_MAIN_MOD_FOLDER (load_settings (Json (JObj items)) w) = DEFAULT_MAIN_MOD_FOLDER w"
proof -
  let ?f = "DEFAULT_MAIN_MOD_FOLDER w"
  let ?fresh = "w\<lparr>settings_data := DEFAULT_SETTINGS ?f\<rparr>"
  have w': "load_settings (Json (JObj items)) w = fold (\<lambda>(key, v). merge_item key v) items ?fresh"
    by (simp add: load_settings_def load_settings_try_def safe_operation_def Let_def)
  have "\<forall>k \<in> fst ` set items. map_of (settings_data ?fresh) k = map_of (DEFAULT_SETTINGS ?f) k"
    by simp
  from load_loop [OF assms(1) [unfolded unique_keys_def] this]
  show "map_of (settings_data (load_settings (Json (JObj items)) w)) k
         = merged_slot items (map_of (DEFAULT_SETTINGS (DEFAULT_MAIN_MOD_FOLDER w)) k) k"
    and "objs (load_settings (Json (JObj items)) w) a = merged_obj items (objs w a) a"
    and "trace (load_settings (Json (JObj items)) w) = trace w"
    and "dialogs (load_settings (Json (JObj items)) w) = dialogs w"
    and "DEFAULT_MAIN_MOD_FOLDER (load_settings (Json (JObj items)) w) = DEFAULT_MAIN_MOD_FOLDER w"
    by (simp_all add: w')
qed

lemma loaded_lookup:
  assumes "unique_keys items"
  shows "map_of (settings_now (load_settings (Json (JObj items)) w)) k =
     (case map_of items k of
        None \<Rightarrow> map_of (defaults_now w) k
      | Some v \<Rightarrow>
          (case (v, obj_at k) of
             (JObj l, Some a) \<Rightarrow> Some (JObj (dict_update (objs w a) l))
           | _ \<Rightarrow> Some v))"
proof -
  let ?w = "load_settings (Json (JObj items)) w"
  let ?D = "DEFAULT_SETTINGS (DEFAULT_MAIN_MOD_FOLDER w)"
  have slot: "map_of (settings_data ?w) k = merged_slot items (map_of ?D k) k" for k
    by (rule load_object(1) [OF assms])
  have obj: "objs ?w a = merged_obj items (objs w a) a" for a
    by (rule load_object(2) [OF assms])
  show ?thesis
  proof (cases "map_of items k")
    case None
    show ?thesis
    proof (cases "map_of ?D k")
      case nodefault: None
      with None show ?thesis
        by (simp add: settings_now_def defaults_now_def map_of_snapshot slot merged_slot_def)
    next
      case (Some s)
      show ?thesis
      proof (cases s)
        case (Val x)
        with None Some show ?thesis
          by (simp add: settings_now_def defaults_now_def map_of_snapshot slot merged_slot_def
              deref_def)
      next
        case (Ref a)
        with Some have "k = key_of a" by (simp add: default_ref obj_at_key_of)
        with None Some Ref show ?thesis
          by (simp add: settings_now_def defaults_now_def map_of_snapshot slot merged_slot_def
              deref_def obj merged_obj_def)
      qed
    qed
  next
    case (Some v)
    show ?thesis
    proof (cases "is_dict v \<and> obj_at k \<noteq> None")
      case True
      then obtain l a where v: "v = JObj l" and a: "obj_at k = Some a"
        by (cases v) auto
      from a have k: "k = key_of a" and D: "map_of ?D k = Some (Ref a)"
        by (simp_all add: obj_at_key_of default_ref obj_at_key)
      from Some v a D show ?thesis
        by (simp add: settings_now_def map_of_snapshot slot merged_slot_def deref_def obj
            merged_obj_def k [symmetric])
    next
      case False
      with Some show ?thesis
        by (cases v; cases "obj_at k")
          (simp_all add: settings_now_def map_of_snapshot slot merged_slot_def deref_def)
    qed
  qed
qed

text \<open>
  Claim C1. When the settings file parses as a JSON object, \<open>load_settings\<close> returns
  normally, shows no dialog, and leaves in \<open>settings_data\<close> the defaults merged one level
  deep with the file: the keys are those of the defaults together with those of the file;
  where the default and the loaded value are both dicts the result is a dict that has the
  loaded value for every key of the loaded dict and the default's value for the others;
  any other loaded value replaces the default; a key the file lacks keeps its default.
  The defaults are the module's \<open>DEFAULT_SETTINGS\<close> as they stand when the call is made.
\<close>

theorem load_settings_merges_one_level:
  fixes w :: world and items :: "json dict"
  defines "w' \<equiv> load_settings (Json (JObj items)) w"
  assumes "parsed_object items"
  shows "load_settings_try (Json (JObj items)) w = Inr (w', ())
       \<and> dialogs w' = dialogs w
       \<and> keys (settings_now w') = keys (defaults_now w) \<union> keys items
       \<and> (\<forall>k d l. map_of (defaults_now w) k = Some (JObj d) \<and> map_of items k = Some (JObj l)
             \<longrightarrow> (\<exists>m. map_of (settings_now w') k = Some (JObj m)
                       \<and> map_of m = map_of d ++ map_of l))
       \<and> (\<forall>k v. map_of items k = Some v
                 \<and> \<not> (is_dict v \<and> (\<exists>d. map_of (defaults_now w) k = Some (JObj d)))
             \<longrightarrow> map_of (settings_now w') k = Some v)
       \<and> (\<forall>k. k \<notin> keys items \<longrightarrow> map_of (settings_now w') k = map_of (defaults_now w) k)"
proof -
  from assms(2) have uniq: "unique_keys items"
    and nested: "\<And>k v. (k, v) \<in> set items \<Longrightarrow> nested_unique v"
    by (auto simp: parsed_object_def list_all_iff)
  note look = loaded_lookup [OF uniq, of w, folded w'_def]
  have returns: "load_settings_try (Json (JObj items)) w = Inr (w', ())"
    by (simp add: w'_def load_object_try)
  have quiet: "dialogs w' = dialogs w"
    by (simp add: w'_def load_object(4) [OF uniq])
  have "dom (map_of (settings_now w')) = dom (map_of (defaults_now w)) \<union> dom (map_of items)"
    by (auto simp: look dom_def split: option.splits json.splits)
  then have allkeys: "keys (settings_now w') = keys (defaults_now w) \<union> keys items"
    by (simp add: keys_dom)
  have both: "\<exists>m. map_of (settings_now w') k = Some (JObj m) \<and> map_of m = map_of d ++ map_of l"
    if "map_of (defaults_now w) k = Some (JObj d)" and "map_of items k = Some (JObj l)" for k d l
  proof -
    from that(1) obtain a where a: "obj_at k = Some a"
      using default_is_dict [of w k] by auto
    with that(1) have d: "d = objs w a" by (simp add: default_dict_value)
    from that(2) have "(k, JObj l) \<in> set items" by (rule map_of_SomeD)
    then have "unique_keys l" using nested by fastforce
    then have "map_of (dict_update d l) = map_of d ++ map_of l"
      by (rule map_of_dict_update)
    moreover have "map_of (settings_now w') k = Some (JObj (dict_update d l))"
      by (simp add: look that(2) a d)
    ultimately show ?thesis by blast
  qed
  have replace: "map_of (settings_now w') k = Some v"
    if "map_of items k = Some v"
      and "\<not> (is_dict v \<and> (\<exists>d. map_of (defaults_now w) k = Some (JObj d)))" for k v
    using that by (cases v; cases "obj_at k") (simp_all add: look default_is_dict)
  have missing: "map_of (settings_now w') k = map_of (defaults_now w) k" if "k \<notin> keys items" for k
  proof -
    from that have "map_of items k = None" by (simp add: keys_dom domIff)
    then show ?thesis by (simp add: look)
  qed
  from returns quiet allkeys both replace missing show ?thesis by blast
qed

subsection \<open>Loading\<close>

lemmas eval_defs = load_settings_def load_settings_try_def safe_operation_def merge_item_def
  dict_update_def settings_now_def defaults_now_def snapshot_def deref_def init_world_def
  DEFAULT_SETTINGS_def default_objs_def str_def Let_def

theorem load_settings_merges_one_level_witness:
  "parsed_object example_file
   \<and> map_of (settings_now (load_settings (Json (JObj example_file)) (init_world (str ''/Mods''))))
        (str ''temp_mod_timer'') = Some JNull
   \<and> map_of (settings_now (load_settings (Json (JObj example_file)) (init_world (str ''/Mods''))))
        (str ''init_py_in_scripts'') = Some (JBool True)
   \<and> (\<exists>m. map_of (settings_now (load_settings (Json (JObj example_file)) (init_world (str ''/Mods''))))
          (str ''naming_rules'') = Some (JObj m)
        \<and> map_of m (str ''no_spaces_files'') = Some (JBool True)
        \<and> map_of m (str ''no_spaces_folders'') = Some (JBool False))"
proof -
  have ok: "parsed_object example_file"
    by (simp add: example_file_def parsed_object_def unique_keys_def str_def)
  have d: "map_of (defaults_now (init_world (str ''/Mods''))) (str ''naming_rules'')
           = Some (JObj (default_objs NamingRules))"
    by (simp add: eval_defs)
  have l: "map_of example_file (str ''naming_rules'') = Some (JObj [(str ''no_spaces_files'', JBool True)])"
    by (simp add: example_file_def str_def)
  have t: "map_of example_file (str ''temp_mod_timer'') = Some JNull"
    by (simp add: example_file_def str_def)
  have i: "str ''init_py_in_scripts'' \<notin> keys example_file"
    by (simp add: example_file_def keys_def str_def)
  have i': "map_of (defaults_now (init_world (str ''/Mods''))) (str ''init_py_in_scripts'') = Some (JBool True)"
    by (simp add: eval_defs)
  note T = load_settings_merges_one_level [OF ok, of "init_world (str ''/Mods'')"]
  from T d l obtain m where
    m: "map_of (settings_now (load_settings (Json (JObj example_file)) (init_world (str ''/Mods''))))
          (str ''naming_rules'') = Some (JObj m)"
      "map_of m = map_of (default_objs NamingRules) ++ map_of [(str ''no_spaces_files'', JBool True)]"
    by blast
  from m(2) have "map_of m (str ''no_spaces_files'') = Some (JBool True)"
    "map_of m (str ''no_spaces_folders'') = Some (JBool False)"
    by (simp_all add: default_objs_def str_def map_add_def)
  with m(1) ok T t i i' show ?thesis by auto
qed

text \<open>
  The two exceptions the handler of line 112 names: when \<open>open\<close> or the read raises
  \<open>OSError\<close>, or the text is not JSON, \<open>load_settings\<close> returns normally, shows the
  "Settings file is corrupted" dialog, leaves the nested default objects alone and sets
  \<open>settings_data\<close> to a copy of \<open>DEFAULT_SETTINGS\<close>.
\<close>

lemma load_settings_handled_errors_reset:
  "load_settings_try Unreadable w
     = Inr (w\<lparr>settings_data := DEFAULT_SETTINGS (DEFAULT_MAIN_MOD_FOLDER w),
              dialogs := dialogs w @ [SettingsCorrupted]\<rparr>, ())
   \<and> load_settings_try NotJson w
     = Inr (w\<lparr>settings_data := DEFAULT_SETTINGS (DEFAULT_MAIN_MOD_FOLDER w),
              dialogs := dialogs w @ [SettingsCorrupted]\<rparr>, ())
   \<and> settings_now (load_settings Unreadable w) = defaults_now w
   \<and> settings_now (load_settings NotJson w) = defaults_now w
   \<and> dialogs (load_settings Unreadable w) = dialogs w @ [SettingsCorrupted]
   \<and> dialogs (load_settings NotJson w) = dialogs w @ [SettingsCorrupted]
   \<and> objs (load_settings Unreadable w) = objs w
   \<and> objs (load_settings NotJson w) = objs w
   \<and> settings_now (load_settings Unreadable (init_world folder))
       = snapshot default_objs (DEFAULT_SETTINGS folder)
   \<and> settings_now (load_settings NotJson (init_world folder))
       = snapshot default_objs (DEFAULT_SETTINGS folder)"
  by (simp add: load_settings_def load_settings_try_def safe_operation_def settings_now_def
      defaults_now_def init_world_def Let_def)

text \<open>
  Claim C6. The claim asks that every malformed settings file yields the defaults and
  the corruption notice instead of an error, and the docstring of \<open>load_settings\<close>
  promises the defaults for a corrupted file. The handler names only \<open>JSONDecodeError\<close>
  and \<open>OSError\<close>: a file whose bytes are not UTF-8 raises \<open>UnicodeDecodeError\<close>, which
  leaves the function, reaches \<open>safe_operation\<close> and is shown as "Operation failed";
  \<open>settings_data\<close> is not reset and no corruption dialog appears, so after an earlier
  load the settings are not the defaults. The same holds for an \<open>OSError\<close> raised by
  \<open>exists()\<close> before the \<open>try\<close> and for a \<open>RecursionError\<close>; a JSON value that is not
  an object resets the settings and then leaves with \<open>AttributeError\<close>.
\<close>

theorem load_settings_unhandled_errors_propagate:
  "load_settings_try NotUtf8 w = Inl (UnicodeDecodeError, w)
   \<and> load_settings NotUtf8 w = w\<lparr>dialogs := dialogs w @ [OperationFailed UnicodeDecodeError]\<rparr>
   \<and> settings_data (load_settings NotUtf8 w) = settings_data w
   \<and> load_settings_try ExistsFails w = Inl (OSError, w)
   \<and> load_settings ExistsFails w = w\<lparr>dialogs := dialogs w @ [OperationFailed OSError]\<rparr>
   \<and> load_settings_try TooDeep w = Inl (RecursionError, w)
   \<and> load_settings_try (Json (JList [])) w
       = Inl (AttributeError, w\<lparr>settings_data := DEFAULT_SETTINGS (DEFAULT_MAIN_MOD_FOLDER w)\<rparr>)
   \<and> dialogs (load_settings NotUtf8 (init_world folder)) = [OperationFailed UnicodeDecodeError]
   \<and> SettingsCorrupted \<notin> set (dialogs (load_settings NotUtf8 (init_world folder)))
   \<and> settings_now (load_settings NotUtf8
         (load_settings (Json (JObj example_file)) (init_world folder)))
       \<noteq> snapshot default_objs (DEFAULT_SETTINGS folder)"
proof -
  have "map_of (settings_now (load_settings NotUtf8
          (load_settings (Json (JObj example_file)) (init_world folder)))) (str ''temp_mod_timer'')
        = Some JNull"
    by (simp add: eval_defs example_file_def)
  moreover have "map_of (snapshot default_objs (DEFAULT_SETTINGS folder)) (str ''temp_mod_timer'')
        = Some (JStr (str ''Disabled''))"
    by (simp add: eval_defs)
  ultimately have "settings_now (load_settings NotUtf8
         (load_settings (Json (JObj example_file)) (init_world folder)))
       \<noteq> snapshot default_objs (DEFAULT_SETTINGS folder)"
    by auto
  then show ?thesis
    by (simp add: load_settings_def load_settings_try_def safe_operation_def init_world_def Let_def)
qed

subsection \<open>Naming rules\<close>

lemma replace_spaces_Nil: "replace_spaces [] name = remove_all_spaces name"
  by (induction name) (simp_all add: replace_spaces_def remove_all_spaces_def)

lemma replace_spaces_underscore: "replace_spaces (str ''_'') name = spaces_to_underscores name"
  by (induction name) (simp_all add: replace_spaces_def spaces_to_underscores_def str_def)

lemma naming_rule_with_rules:
  assumes "map_of (settings_data w) (str ''naming_rules'') = Some (Ref NamingRules)"
  shows "naming_rule (with_rules a b c w) (str ''no_spaces_folders'') = Inr a"
    and "naming_rule (with_rules a b c w) (str ''no_spaces_files'') = Inr b"
    and "naming_rule (with_rules a b c w) (str ''convert_spaces_underscores'') = Inr c"
  using assms
  by (simp_all add: naming_rule_def with_rules_def deref_def map_of_dict_set) (simp_all add: str_def)

lemma init_naming_rules:
  "map_of (settings_data (init_world folder)) (str ''naming_rules'') = Some (Ref NamingRules)"
  by (simp add: init_world_def DEFAULT_SETTINGS_def str_def)

lemma apply_naming_rules_reference:
  assumes "naming_rule w (str ''no_spaces_folders'') = Inr a"
    and "naming_rule w (str ''no_spaces_files'') = Inr b"
    and "naming_rule w (str ''convert_spaces_underscores'') = Inr c"
  shows "apply_naming_rules w name is_folder = Inr (reference_rules a b c is_folder name)"
  using assms
  by (simp add: apply_naming_rules_def bind_def reference_rules_def Let_def
      replace_spaces_Nil replace_spaces_underscore)

text \<open>
  Claim C2. Whenever the three naming rules can be read from the settings,
  \<open>apply_naming_rules\<close> equals the three-step transformation of the specification, for
  every name and both values of \<open>is_folder\<close>. In particular "My Mod" as a folder name
  becomes "MyMod" under \<open>no_spaces_folders\<close> and \<open>convert_spaces_underscores\<close>, becomes
  "My_Mod" under \<open>convert_spaces_underscores\<close> alone, and under \<open>no_spaces_folders\<close> alone
  a file name comes back unchanged.
\<close>

theorem apply_naming_rules_three_steps:
  assumes "naming_rule w (str ''no_spaces_folders'') = Inr no_spaces_folders"
    and "naming_rule w (str ''no_spaces_files'') = Inr no_spaces_files"
    and "naming_rule w (str ''convert_spaces_underscores'') = Inr convert_spaces_underscores"
  shows "apply_naming_rules w name is_folder
           = Inr (reference_rules no_spaces_folders no_spaces_files convert_spaces_underscores
                    is_folder name)
       \<and> apply_naming_rules (with_rules True False True (init_world folder)) (str ''My Mod'') True
           = Inr (str ''MyMod'')
       \<and> apply_naming_rules (with_rules False False True (init_world folder)) (str ''My Mod'') True
           = Inr (str ''My_Mod'')
       \<and> apply_naming_rules (with_rules True False False (init_world folder)) name False
           = Inr name"
proof -
  note rules = naming_rule_with_rules [OF init_naming_rules]
  have "apply_naming_rules (with_rules True False True (init_world folder)) (str ''My Mod'') True
          = Inr (str ''MyMod'')"
    by (simp add: apply_naming_rules_reference [OF rules] reference_rules_def
        remove_all_spaces_def spaces_to_underscores_def str_def)
  moreover
  have "apply_naming_rules (with_rules False False True (init_world folder)) (str ''My Mod'') True
          = Inr (str ''My_Mod'')"
    by (simp add: apply_naming_rules_reference [OF rules] reference_rules_def
        remove_all_spaces_def spaces_to_underscores_def str_def)
  moreover
  have "apply_naming_rules (with_rules True False False (init_world folder)) name False = Inr name"
    by (simp add: apply_naming_rules_reference [OF rules] reference_rules_def)
  ultimately show ?thesis
    using apply_naming_rules_reference [OF assms] by simp
qed

theorem apply_naming_rules_three_steps_witness:
  "naming_rule (with_rules True True True (init_world [])) (str ''no_spaces_folders'') = Inr True
   \<and> naming_rule (with_rules True True True (init_world [])) (str ''no_spaces_files'') = Inr True
   \<and> naming_rule (with_rules True True True (init_world [])) (str ''convert_spaces_underscores'')
       = Inr True
   \<and> apply_naming_rules (with_rules True True True (init_world [])) (str ''a b c'') False
       = Inr (str ''abc'')"
proof -
  note rules = naming_rule_with_rules [OF init_naming_rules, of True True True "[]"]
  have "reference_rules True True True False (str ''a b c'') = str ''abc''"
    by (simp add: reference_rules_def remove_all_spaces_def spaces_to_underscores_def str_def)
  with apply_naming_rules_three_steps [OF rules, of "str ''a b c''" False] rules
  show ?thesis by simp
qed

subsection \<open>Shared defaults, saving, and the checks of generate_mod\<close>

lemma load_reset:
  assumes "later = NoFile \<or> later = Unreadable \<or> later = NotJson"
  shows "settings_now (load_settings later w) = defaults_now w"
  using assms
  by (auto simp: load_settings_def load_settings_try_def safe_operation_def settings_now_def
      defaults_now_def Let_def)

text \<open>
  Claim C10. \<open>DEFAULT_SETTINGS.copy()\<close> is shallow: when the file holds a dict under
  \<open>naming_rules\<close> or \<open>backup_options\<close>, the load updates the nested dict object of
  \<open>DEFAULT_SETTINGS\<close> itself, so \<open>DEFAULT_SETTINGS\<close> now reads with the loaded keys merged
  in, and a later load that finds no file, an unreadable file or a file that is not JSON
  returns the merged dict, with the value the earlier file gave to each of its keys.
\<close>

theorem shallow_copy_shares_nested_defaults:
  assumes "parsed_object items"
    and "map_of items (key_of a) = Some (JObj l)"
    and "map_of l j = Some x"
    and "later = NoFile \<or> later = Unreadable \<or> later = NotJson"
  shows "objs (load_settings (Json (JObj items)) w) a = dict_update (objs w a) l
       \<and> map_of (defaults_now (load_settings (Json (JObj items)) w)) (key_of a)
           = Some (JObj (dict_update (objs w a) l))
       \<and> map_of (settings_now (load_settings later (load_settings (Json (JObj items)) w)))
            (key_of a)
           = Some (JObj (dict_update (objs w a) l))
       \<and> map_of (dict_update (objs w a) l) j = Some x"
proof -
  let ?w = "load_settings (Json (JObj items)) w"
  from assms(1) have uniq: "unique_keys items"
    and nested: "\<And>k v. (k, v) \<in> set items \<Longrightarrow> nested_unique v"
    by (auto simp: parsed_object_def list_all_iff)
  have obj: "objs ?w a = dict_update (objs w a) l"
    by (simp add: load_object(2) [OF uniq] merged_obj_def assms(2))
  have "map_of (defaults_now ?w) (key_of a) = Some (JObj (objs ?w a))"
    by (rule default_dict_value) (rule obj_at_key)
  with obj have dflt: "map_of (defaults_now ?w) (key_of a) = Some (JObj (dict_update (objs w a) l))"
    by simp
  from assms(2) have "(key_of a, JObj l) \<in> set items" by (rule map_of_SomeD)
  then have "unique_keys l" using nested by fastforce
  then have "map_of (dict_update (objs w a) l) j = Some x"
    using assms(3) by (simp add: map_of_dict_update)
  with obj dflt load_reset [OF assms(4), of ?w] show ?thesis by simp
qed

theorem shallow_copy_shares_nested_defaults_witness:
  "parsed_object example_file
   \<and> map_of example_file (key_of NamingRules) = Some (JObj [(str ''no_spaces_files'', JBool True)])
   \<and> map_of [(str ''no_spaces_files'', JBool True)] (str ''no_spaces_files'') = Some (JBool True)
   \<and> map_of (default_objs NamingRules) (str ''no_spaces_files'') = Some (JBool False)
   \<and> map_of (settings_now (load_settings NoFile
        (load_settings (Json (JObj example_file)) (init_world (str ''/Mods'')))))
        (str ''naming_rules'')
      = Some (JObj [(str ''no_spaces_folders'', JBool False),
                    (str ''no_spaces_files'', JBool True),
                    (str ''convert_spaces_underscores'', JBool False)])"
proof -
  have ok: "parsed_object example_file"
    by (simp add: example_file_def parsed_object_def unique_keys_def str_def)
  have l: "map_of example_file (key_of NamingRules) = Some (JObj [(str ''no_spaces_files'', JBool True)])"
    by (simp add: example_file_def key_of_def str_def)
  have x: "map_of [(str ''no_spaces_files'', JBool True)] (str ''no_spaces_files'') = Some (JBool True)"
    by simp
  have d: "map_of (default_objs NamingRules) (str ''no_spaces_files'') = Some (JBool False)"
    by (simp add: default_objs_def str_def)
  have u: "dict_update (objs (init_world (str ''/Mods'')) NamingRules)
             [(str ''no_spaces_files'', JBool True)]
           = [(str ''no_spaces_folders'', JBool False),
              (str ''no_spaces_files'', JBool True),
              (str ''convert_spaces_underscores'', JBool False)]"
    by (simp add: dict_update_def init_world_def default_objs_def str_def)
  from shallow_copy_shares_nested_defaults [OF ok l x, of NoFile "init_world (str ''/Mods'')"]
  show ?thesis using ok l x d by (simp add: u key_of_def)
qed

text \<open>
  On a platform where the copy to \<open>settings.json.bak\<close> fails and the write of
  \<open>settings.json\<close> would succeed, saving over an existing file raises and writes nothing.
\<close>

theorem save_settings_copy_failure_counterexample:
  "fails copy_denied [] (Copy2 SETTINGS_FILE (SETTINGS_FILE @ str ''.bak''))
   \<and> \<not> fails copy_denied [] (DumpJson SETTINGS_FILE (settings_now (init_world (str ''/Mods''))))
   \<and> save_settings_try copy_denied True (init_world (str ''/Mods''))
       = Inl (OSError, init_world (str ''/Mods''))
   \<and> trace (save_settings copy_denied True (init_world (str ''/Mods''))) = []"
  by (simp add: save_settings_def save_settings_try_def safe_operation_def fs_call_def bind_def
      copy_denied_def posix_def init_world_def)

text \<open>
  Claim C5, amended. \<open>save_settings\<close> copies an existing settings file to its \<open>.bak\<close>
  sibling before writing. If that copy fails the save fails with the copy's error and
  nothing is written; if the copy succeeds (or there was no file) and the write fails
  the save fails with the write's error; otherwise the settings are written. In every
  case the in-memory settings stay as they were.
\<close>

theorem save_settings_outcomes:
  fixes os :: platform and w :: world
  defines "copy \<equiv> Copy2 SETTINGS_FILE (SETTINGS_FILE @ str ''.bak'')"
    and "dump \<equiv> DumpJson SETTINGS_FILE (settings_now w)"
  shows "(present \<and> fails os (trace w) copy
            \<longrightarrow> save_settings_try os present w = Inl (OSError, w))
       \<and> (present \<and> \<not> fails os (trace w) copy \<and> fails os (trace w @ [copy]) dump
            \<longrightarrow> save_settings_try os present w = Inl (OSError, w\<lparr>trace := trace w @ [copy]\<rparr>))
       \<and> (present \<and> \<not> fails os (trace w) copy \<and> \<not> fails os (trace w @ [copy]) dump
            \<longrightarrow> save_settings_try os present w
                  = Inr (w\<lparr>trace := trace w @ [copy, dump]\<rparr>, ()))
       \<and> (\<not> present \<and> fails os (trace w) dump
            \<longrightarrow> save_settings_try os present w = Inl (OSError, w))
       \<and> (\<not> present \<and> \<not> fails os (trace w) dump
            \<longrightarrow> save_settings_try os present w = Inr (w\<lparr>trace := trace w @ [dump]\<rparr>, ()))
       \<and> settings_data (save_settings os present w) = settings_data w
       \<and> objs (save_settings os present w) = objs w"
  by (simp add: save_settings_def save_settings_try_def safe_operation_def fs_call_def bind_def
      copy_def dump_def settings_now_def)

theorem save_settings_outcomes_witness:
  "fails copy_denied [] (Copy2 SETTINGS_FILE (SETTINGS_FILE @ str ''.bak''))
   \<and> save_settings_try copy_denied True (init_world []) = Inl (OSError, init_world [])
   \<and> \<not> fails copy_denied [] (DumpJson SETTINGS_FILE (settings_now (init_world [])))
   \<and> save_settings_try copy_denied False (init_world [])
       = Inr ((init_world [])\<lparr>trace := [DumpJson SETTINGS_FILE (settings_now (init_world []))]\<rparr>, ())"
  using save_settings_outcomes [of True copy_denied "init_world []"]
    save_settings_outcomes [of False copy_denied "init_world []"]
  by (simp add: copy_denied_def posix_def init_world_def)

text \<open>
  Claim C7. When the folder name or the file name is empty after \<open>strip()\<close>,
  \<open>generate_mod\<close> shows the "No Folder Name specified." dialog (or the one for the file
  name, when only that is empty) and returns: no file-system call is made, the list of
  created files is empty, and the settings are untouched.
\<close>

theorem generate_mod_missing_name:
  assumes "strip (folder_name_var self) = [] \<or> strip (file_name_var self) = []"
  shows "generate_mod_try os self w
           = Inr (w\<lparr>dialogs := dialogs w @
                     [if strip (folder_name_var self) = [] then NoFolderName else NoFileName]\<rparr>, [])
       \<and> trace (generate_mod os self w) = trace w
       \<and> settings_data (generate_mod os self w) = settings_data w
       \<and> objs (generate_mod os self w) = objs w"
  using assms
  by (auto simp: generate_mod_def generate_mod_try_def safe_operation_def Let_def)

theorem generate_mod_missing_name_witness:
  "(strip (folder_name_var \<lparr>folder_name_var = str ''  '', file_name_var = str ''Test File'',
        all_var = True, script_var = True, tuning_var = True, package_var = True\<rparr>) = []
    \<or> strip (file_name_var \<lparr>folder_name_var = str ''  '', file_name_var = str ''Test File'',
        all_var = True, script_var = True, tuning_var = True, package_var = True\<rparr>) = [])
   \<and> generate_mod_try permissive
        \<lparr>folder_name_var = str ''  '', file_name_var = str ''Test File'',
         all_var = True, script_var = True, tuning_var = True, package_var = True\<rparr>
        (init_world (str ''/Mods''))
      = Inr ((init_world (str ''/Mods''))\<lparr>dialogs := [NoFolderName]\<rparr>, [])"
proof -
  have e: "strip (str ''  '') = []"
    by (simp add: strip_def str_def isspace_def)
  from generate_mod_missing_name
    [of "\<lparr>folder_name_var = str ''  '', file_name_var = str ''Test File'',
         all_var = True, script_var = True, tuning_var = True, package_var = True\<rparr>"
        permissive "init_world (str ''/Mods'')"]
  show ?thesis using e by (simp add: init_world_def)
qed

lemma create_types_all:
  "create_types os (self\<lparr>all_var := True\<rparr>) full_folder_path file_name
   = create_types os
       (self\<lparr>all_var := False, script_var := True, tuning_var := True, package_var := True\<rparr>)
       full_folder_path file_name"
  by (rule ext) (simp add: create_types_def)

lemma create_selected_all:
  "create_selected os (self\<lparr>all_var := True\<rparr>) full_folder_path file_name st
   = create_selected os
       (self\<lparr>all_var := False, script_var := True, tuning_var := True, package_var := True\<rparr>)
       full_folder_path file_name st"
  by (simp add: create_selected_def create_types_all)

text \<open>
  Claim C8. With \<open>all_var\<close> set, whatever the other three flags are, \<open>generate_mod\<close> does
  exactly what it does with \<open>all_var\<close> clear and \<open>script_var\<close>, \<open>tuning_var\<close> and
  \<open>package_var\<close> set: the same outcome, the same file-system calls with the same paths
  and contents, the same dialogs and the same list of created files.
\<close>

theorem generate_mod_all_is_three_flags:
  "generate_mod_try os (self\<lparr>all_var := True\<rparr>) w
   = generate_mod_try os
       (self\<lparr>all_var := False, script_var := True, tuning_var := True, package_var := True\<rparr>) w"
proof -
  have "scaffold os (self\<lparr>all_var := True\<rparr>) folder_name file_name w
        = scaffold os
            (self\<lparr>all_var := False, script_var := True, tuning_var := True, package_var := True\<rparr>)
            folder_name file_name w" for folder_name file_name
    by (simp add: scaffold_def create_selected_all
        cong: sum.case_cong option.case_cong json.case_cong)
  then show ?thesis
    by (simp add: generate_mod_try_def Let_def cong: if_cong)
qed

subsection \<open>Steps of the scaffolder\<close>

lemma naming_rule_trace: "naming_rule (w\<lparr>trace := t\<rparr>) rule = naming_rule w rule"
  by (simp add: naming_rule_def cong: option.case_cong)

lemma apply_naming_rules_trace:
  "apply_naming_rules (w\<lparr>trace := t\<rparr>) name is_folder = apply_naming_rules w name is_folder"
  by (simp add: apply_naming_rules_def naming_rule_trace)

lemma get_flag_trace: "get_flag (w\<lparr>trace := t\<rparr>) key = get_flag w key"
  by (simp add: get_flag_def cong: option.case_cong)

lemma backup_always_trace: "backup_always (w\<lparr>trace := t\<rparr>) = backup_always w"
  by (simp add: backup_always_def cong: option.case_cong)

lemma step_okI_Inl:
  "w' = w\<lparr>trace := trace w @ calls\<rparr> \<Longrightarrow> list_all P calls \<Longrightarrow> step_ok P w cf (Inl (e, w'))"
  by (auto simp: step_ok_def)

lemma step_okI_Inr:
  "w' = w\<lparr>trace := trace w @ calls\<rparr> \<Longrightarrow> list_all P calls \<Longrightarrow> cf' = cf @ paths
   \<Longrightarrow> step_ok P w cf (Inr (w', cf'))"
  by (auto simp: step_ok_def)

lemma step_ok_refl: "step_ok P w cf (Inr (w, cf))"
  by (rule step_okI_Inr [of _ _ "[]" _ _ _ "[]"]) simp_all

lemma step_ok_Inl: "step_ok P w cf (Inl (e, w))"
  by (rule step_okI_Inl [of _ _ "[]"]) simp_all

lemma step_ok_bind:
  assumes "step_ok P w cf r"
    and "\<And>w' cf'. r = Inr (w', cf') \<Longrightarrow> step_ok P w' cf' (f (w', cf'))"
  shows "step_ok P w cf (bind r f)"
proof (cases r)
  case (Inl a)
  with assms(1) show ?thesis by (simp add: bind_def)
next
  case (Inr b)
  obtain w' cf' where b: "b = (w', cf')" by (cases b)
  from assms(1) Inr b obtain calls paths where
    1: "w' = w\<lparr>trace := trace w @ calls\<rparr>" "list_all P calls" "cf' = cf @ paths"
    by (auto simp: step_ok_def)
  from assms(2) Inr b have 2: "step_ok P w' cf' (f (w', cf'))" by simp
  have r: "bind r f = f (w', cf')" by (simp add: bind_def Inr b)
  show ?thesis
  proof (cases "f (w', cf')")
    case (Inl c)
    obtain e w'' where c: "c = (e, w'')" by (cases c)
    from 2 Inl c obtain calls' where "w'' = w'\<lparr>trace := trace w' @ calls'\<rparr>" "list_all P calls'"
      by (auto simp: step_ok_def)
    with 1 have "w'' = w\<lparr>trace := trace w @ (calls @ calls')\<rparr>" "list_all P (calls @ calls')"
      by simp_all
    then have "step_ok P w cf (Inl (e, w''))" by (rule step_okI_Inl)
    then show ?thesis by (simp add: r Inl c)
  next
    case inr: (Inr c)
    obtain w'' cf'' where c: "c = (w'', cf'')" by (cases c)
    from 2 inr c obtain calls' paths' where
      "w'' = w'\<lparr>trace := trace w' @ calls'\<rparr>" "list_all P calls'" "cf'' = cf' @ paths'"
      by (auto simp: step_ok_def)
    with 1 have "w'' = w\<lparr>trace := trace w @ (calls @ calls')\<rparr>" "list_all P (calls @ calls')"
      "cf'' = cf @ (paths @ paths')"
      by simp_all
    then have "step_ok P w cf (Inr (w'', cf''))" by (rule step_okI_Inr)
    then show ?thesis by (simp add: r inr c)
  qed
qed

lemma write_and_record_eq:
  "write_and_record os call path (w, cf) =
     (if fails os (trace w) call then Inl (OSError, w)
      else Inr (w\<lparr>trace := trace w @ [call]\<rparr>, cf @ [path]))"
  by (simp add: write_and_record_def fs_call_def bind_def)

lemma step_ok_write:
  assumes "P call"
  shows "step_ok P w cf (write_and_record os call path (w, cf))"
proof (cases "fails os (trace w) call")
  case True
  then show ?thesis by (simp add: write_and_record_eq step_ok_Inl)
next
  case False
  have "step_ok P w cf (Inr (w\<lparr>trace := trace w @ [call]\<rparr>, cf @ [path]))"
    by (rule step_okI_Inr [of _ _ "[call]" _ _ _ "[path]"]) (simp_all add: assms)
  then show ?thesis
    using False by (simp add: write_and_record_eq)
qed

lemma step_ok_mkdir_then:
  assumes "P (MakeDirs d)"
    and "\<And>w1. step_ok P w1 cf (f w1)"
  shows "step_ok P w cf (bind (fs_call os (MakeDirs d) w) f)"
proof (cases "fails os (trace w) (MakeDirs d)")
  case True
  then show ?thesis by (simp add: fs_call_def bind_def step_ok_Inl)
next
  case False
  let ?w1 = "w\<lparr>trace := trace w @ [MakeDirs d]\<rparr>"
  have a: "step_ok P w cf (Inr (?w1, cf))"
    by (rule step_okI_Inr [of _ _ "[MakeDirs d]" _ _ _ "[]"]) (simp_all add: assms(1))
  have "step_ok P w cf (bind (Inr (?w1, cf)) (\<lambda>(w1, cf). f w1))"
    by (rule step_ok_bind [OF a]) (simp add: assms(2))
  then show ?thesis
    using False by (simp add: fs_call_def bind_def)
qed

lemma texts_differ:
  "script_text \<noteq> init_text" "tuning_text \<noteq> init_text" "modinfo_text name \<noteq> init_text"
  by (simp_all add: script_text_def tuning_text_def modinfo_text_def init_text_def str_def)

lemma step_ok_create_script:
  assumes "\<And>c. \<not> is_marker c \<Longrightarrow> P c"
  shows "step_ok P w cf (create_script os full file_name (w, cf))"
proof -
  have "step_ok P w1 cf
          (case apply_naming_rules w1 file_name False of
             Inl e \<Rightarrow> Inl (e, w1)
           | Inr name \<Rightarrow>
               write_and_record os
                 (WriteText (path_join os (path_join os full (str ''Scripts'')) (name @ str ''.py''))
                    script_text)
                 (path_join os (path_join os full (str ''Scripts'')) (name @ str ''.py''))
                 (w1, cf))" for w1
    by (cases "apply_naming_rules w1 file_name False")
      (simp_all add: step_ok_Inl step_ok_write assms texts_differ)
  then show ?thesis
    unfolding create_script_def Let_def prod.case
    by (intro step_ok_mkdir_then) (simp_all add: assms)
qed

lemma step_ok_create_tuning:
  assumes "\<And>c. \<not> is_marker c \<Longrightarrow> P c"
  shows "step_ok P w cf (create_tuning os full file_name (w, cf))"
proof -
  have "step_ok P w1 cf
          (case apply_naming_rules w1 file_name False of
             Inl e \<Rightarrow> Inl (e, w1)
           | Inr name \<Rightarrow>
               write_and_record os
                 (WriteText (path_join os (path_join os full (str ''Tuning'')) (name @ str ''.xml''))
                    tuning_text)
                 (path_join os (path_join os full (str ''Tuning'')) (name @ str ''.xml''))
                 (w1, cf))" for w1
    by (cases "apply_naming_rules w1 file_name False")
      (simp_all add: step_ok_Inl step_ok_write assms texts_differ)
  then show ?thesis
    unfolding create_tuning_def Let_def prod.case
    by (intro step_ok_mkdir_then) (simp_all add: assms)
qed

lemma step_ok_create_package:
  assumes "\<And>c. \<not> is_marker c \<Longrightarrow> P c"
  shows "step_ok P w cf (create_package os full file_name (w, cf))"
  unfolding create_package_def Let_def prod.case
  by (cases "apply_naming_rules w file_name False")
    (simp_all add: step_ok_Inl step_ok_write assms)

lemma step_ok_create_types:
  assumes P: "\<And>c. \<not> is_marker c \<Longrightarrow> P c"
  shows "step_ok P w cf (create_types os self full file_name (w, cf))"
proof -
  note steps = step_ok_create_script [of P, OF P] step_ok_create_tuning [of P, OF P]
    step_ok_create_package [of P, OF P]
  show ?thesis
  proof (cases "all_var self")
    case True
    then show ?thesis
      unfolding create_types_def
      by simp (intro step_ok_bind steps)
  next
    case False
    have s: "step_ok P w' cf'
               (if script_var self then create_script os full file_name (w', cf') else Inr (w', cf'))"
      for w' cf'
      by (simp add: steps step_ok_refl)
    have t: "step_ok P w' cf'
               (if tuning_var self then create_tuning os full file_name (w', cf') else Inr (w', cf'))"
      for w' cf'
      by (simp add: steps step_ok_refl)
    have p: "step_ok P w' cf'
               (if package_var self then create_package os full file_name (w', cf') else Inr (w', cf'))"
      for w' cf'
      by (simp add: steps step_ok_refl)
    from False show ?thesis
      unfolding create_types_def
      by (simp only: if_False) (intro step_ok_bind s t p)
  qed
qed

lemma create_init_py_Inr:
  assumes "create_init_py os full (w, cf) = Inr (w', cf')"
  shows "w' = w\<lparr>trace := trace w @ marker_calls os full (get_flag w (str ''init_py_in_scripts''))\<rparr>
       \<and> cf' = cf @ [marker_path os full (get_flag w (str ''init_py_in_scripts''))]"
  using assms
  by (auto simp: create_init_py_def write_and_record_eq fs_call_def bind_def Let_def
      marker_calls_def marker_path_def split: if_splits)

lemma step_ok_create_init_py:
  assumes "\<And>c. P c"
  shows "step_ok P w cf (create_init_py os full (w, cf))"
proof (cases "get_flag w (str ''init_py_in_scripts'')")
  case True
  then show ?thesis
    unfolding create_init_py_def Let_def prod.case
    by (simp only: if_True) (intro step_ok_mkdir_then step_ok_write assms)
next
  case False
  then show ?thesis
    unfolding create_init_py_def Let_def prod.case
    by (simp only: if_False) (intro step_ok_write assms)
qed

lemma step_ok_create_selected:
  assumes "\<And>c. P c"
  shows "step_ok P w cf (create_selected os self full file_name (w, cf))"
proof -
  have "step_ok P w cf
          (if all_var self \<or> script_var self \<or> get_flag w (str ''init_py_in_scripts'')
           then create_init_py os full (w, cf) else Inr (w, cf))"
    by (simp add: step_ok_create_init_py assms step_ok_refl)
  then show ?thesis
    unfolding create_selected_def fst_conv
    by (rule step_ok_bind) (simp add: step_ok_create_types assms)
qed

lemma create_selected_Inr:
  assumes "create_selected os self full file_name (w, cf) = Inr (w', cf')"
  defines "flag \<equiv> get_flag w (str ''init_py_in_scripts'')"
  defines "marked \<equiv> all_var self \<or> script_var self \<or> flag"
  shows "\<exists>calls paths.
           w' = w\<lparr>trace := trace w @ (if marked then marker_calls os full flag else []) @ calls\<rparr>
         \<and> list_all (\<lambda>c. \<not> is_marker c) calls
         \<and> cf' = cf @ (if marked then [marker_path os full flag] else []) @ paths"
proof -
  let ?first = "if marked then create_init_py os full (w, cf) else Inr (w, cf)"
  from assms(1) have run: "bind ?first (create_types os self full file_name) = Inr (w', cf')"
    by (simp add: create_selected_def marked_def flag_def)
  then obtain w1 cf1 where first: "?first = Inr (w1, cf1)"
    and rest: "create_types os self full file_name (w1, cf1) = Inr (w', cf')"
    by (cases ?first) (auto simp: bind_def)
  have w1: "w1 = w\<lparr>trace := trace w @ (if marked then marker_calls os full flag else [])\<rparr>"
    and cf1: "cf1 = cf @ (if marked then [marker_path os full flag] else [])"
    using first create_init_py_Inr [of os full w cf w1 cf1]
    by (auto simp: flag_def split: if_splits)
  have "step_ok (\<lambda>c. \<not> is_marker c) w1 cf1 (create_types os self full file_name (w1, cf1))"
    by (rule step_ok_create_types) simp
  with rest obtain calls paths where
    "w' = w1\<lparr>trace := trace w1 @ calls\<rparr>" "list_all (\<lambda>c. \<not> is_marker c) calls"
    "cf' = cf1 @ paths"
    by (auto simp: step_ok_def)
  with w1 cf1 show ?thesis by auto
qed

subsection \<open>The scaffold and the backup as a whole\<close>

lemma scaffold_eq:
  assumes "apply_naming_rules w folder_name True = Inr F"
    and "apply_naming_rules w file_name False = Inr N"
    and "map_of (settings_data w) (str ''main_mods_folder'') = Some s"
    and "deref (objs w) s = JStr R"
  shows "scaffold os self folder_name file_name w =
     bind (fs_call os (MakeDirs (path_join os R F)) w) (\<lambda>w.
       bind (create_modinfo_py os (path_join os R F) N (w, [])) (\<lambda>st.
         bind (create_selected os self (path_join os R F) file_name st)
           (\<lambda>(w, created_files). Inr (w, path_join os R F, created_files))))"
  by (simp add: scaffold_def assms Let_def)

lemma scaffold_reads:
  assumes "scaffold os self folder_name file_name w = Inr x"
  shows "\<exists>F N s R. apply_naming_rules w folder_name True = Inr F
           \<and> apply_naming_rules w file_name False = Inr N
           \<and> map_of (settings_data w) (str ''main_mods_folder'') = Some s
           \<and> deref (objs w) s = JStr R"
  using assms
  by (auto simp: scaffold_def split: sum.splits option.splits json.splits)

lemma scaffold_Inr:
  assumes run: "scaffold os self folder_name file_name w = Inr (w1, full, cf)"
    and F: "apply_naming_rules w folder_name True = Inr F"
    and N: "apply_naming_rules w file_name False = Inr N"
    and s: "map_of (settings_data w) (str ''main_mods_folder'') = Some s"
    and R: "deref (objs w) s = JStr R"
  defines "flag \<equiv> get_flag w (str ''init_py_in_scripts'')"
  defines "marked \<equiv> all_var self \<or> script_var self \<or> flag"
  shows "full = path_join os R F
       \<and> (\<exists>calls paths.
            w1 = w\<lparr>trace := trace w
                     @ [MakeDirs full,
                        WriteText (path_join os full (str ''modinfo.py'')) (modinfo_text N)]
                     @ (if marked then marker_calls os full flag else []) @ calls\<rparr>
          \<and> list_all (\<lambda>c. \<not> is_marker c) calls
          \<and> cf = [path_join os full (str ''modinfo.py'')]
                 @ (if marked then [marker_path os full flag] else []) @ paths)"
proof -
  let ?full = "path_join os R F"
  let ?mp = "path_join os ?full (str ''modinfo.py'')"
  let ?w0 = "w\<lparr>trace := trace w @ [MakeDirs ?full]\<rparr>"
  let ?w2 = "w\<lparr>trace := trace w @ [MakeDirs ?full, WriteText ?mp (modinfo_text N)]\<rparr>"
  note eq = run [unfolded scaffold_eq [OF F N s R]]
  from eq have mk: "\<not> fails os (trace w) (MakeDirs ?full)"
    by (auto simp: fs_call_def bind_def split: if_splits)
  with eq have eq1: "bind (create_modinfo_py os ?full N (?w0, [])) (\<lambda>st.
         bind (create_selected os self ?full file_name st)
           (\<lambda>(w, created_files). Inr (w, ?full, created_files))) = Inr (w1, full, cf)"
    by (simp add: fs_call_def bind_def)
  then have wr: "\<not> fails os (trace ?w0) (WriteText ?mp (modinfo_text N))"
    by (auto simp: create_modinfo_py_def write_and_record_eq bind_def Let_def split: if_splits)
  with eq1 have eq2: "bind (create_selected os self ?full file_name (?w2, [?mp]))
           (\<lambda>(w, created_files). Inr (w, ?full, created_files)) = Inr (w1, full, cf)"
    by (simp add: create_modinfo_py_def write_and_record_eq bind_def Let_def)
  then have full: "full = ?full"
    and sel: "create_selected os self ?full file_name (?w2, [?mp]) = Inr (w1, cf)"
    by (auto simp: bind_def split: sum.splits)
  have flag: "get_flag ?w2 (str ''init_py_in_scripts'') = flag"
    by (simp add: flag_def get_flag_trace)
  from create_selected_Inr [OF sel, unfolded flag, folded marked_def]
  obtain calls paths where
    "w1 = ?w2\<lparr>trace := trace ?w2 @ (if marked then marker_calls os ?full flag else []) @ calls\<rparr>"
    "list_all (\<lambda>c. \<not> is_marker c) calls"
    "cf = [?mp] @ (if marked then [marker_path os ?full flag] else []) @ paths"
    by blast
  with full show ?thesis by auto
qed

lemma copy_created_eq:
  "copy_created os backup_folder cf w =
     (if permitted_prefix os (trace w)
           (map (\<lambda>fpath. CopyFile fpath (path_join os backup_folder (path_basename os fpath))) cf)
         = map (\<lambda>fpath. CopyFile fpath (path_join os backup_folder (path_basename os fpath))) cf
      then Inr (w\<lparr>trace := trace w
                  @ map (\<lambda>fpath. CopyFile fpath (path_join os backup_folder (path_basename os fpath))) cf\<rparr>)
      else Inl (OSError, w\<lparr>trace := trace w @ permitted_prefix os (trace w)
           (map (\<lambda>fpath. CopyFile fpath (path_join os backup_folder (path_basename os fpath))) cf)\<rparr>))"
proof (induction cf arbitrary: w)
  case Nil
  then show ?case by simp
next
  case (Cons fpath cf)
  show ?case
  proof (cases "fails os (trace w)
                  (CopyFile fpath (path_join os backup_folder (path_basename os fpath)))")
    case True
    then show ?thesis by (simp add: fs_call_def bind_def)
  next
    case False
    then show ?thesis
      by (simp add: fs_call_def bind_def Cons.IH)
  qed
qed

lemma backup_created_eq:
  assumes "backup_always w = Inr True"
  shows "backup_created os full cf w =
     Inr (w\<lparr>trace := trace w @ permitted_prefix os (trace w) (backup_calls os full cf),
            dialogs := dialogs w @
              (if permitted_prefix os (trace w) (backup_calls os full cf) = backup_calls os full cf
               then [] else [BackupWarning OSError])\<rparr>)"
proof (cases "fails os (trace w) (MakeDirs (full @ str ''_Backup''))")
  case True
  then show ?thesis
    by (simp add: backup_created_def assms fs_call_def bind_def backup_calls_def)
next
  case False
  then show ?thesis
    by (simp add: backup_created_def assms fs_call_def bind_def backup_calls_def
        copy_created_eq Let_def)
qed

lemma permitted_prefix_subset: "set (permitted_prefix os tr calls) \<subseteq> set calls"
  by (induction calls arbitrary: tr) auto

lemma backup_calls_plain: "list_all (\<lambda>c. \<not> is_marker c) (backup_calls os full cf)"
  by (simp add: backup_calls_def list_all_iff)

lemma backup_created_Inr:
  assumes "backup_created os full cf w = Inr w'"
  shows "\<exists>calls. trace w' = trace w @ calls \<and> list_all (\<lambda>c. \<not> is_marker c) calls"
proof (cases "backup_always w")
  case (Inl e)
  with assms show ?thesis by (simp add: backup_created_def)
next
  case (Inr always)
  show ?thesis
  proof (cases always)
    case True
    let ?done = "permitted_prefix os (trace w) (backup_calls os full cf)"
    from True Inr assms have "trace w' = trace w @ ?done"
      by (auto simp: backup_created_eq)
    moreover have "list_all (\<lambda>c. \<not> is_marker c) ?done"
      using permitted_prefix_subset [of os "trace w" "backup_calls os full cf"]
        backup_calls_plain [of os full cf]
      by (auto simp: list_all_iff)
    ultimately show ?thesis by blast
  next
    case False
    with Inr assms have "w' = w" by (simp add: backup_created_def)
    then show ?thesis by simp
  qed
qed

lemma backup_created_Inl:
  assumes "backup_created os full cf w = Inl (e, w')"
  shows "w' = w"
proof (cases "backup_always w")
  case (Inl e')
  with assms show ?thesis by (simp add: backup_created_def)
next
  case (Inr always)
  show ?thesis
  proof (cases always)
    case True
    with Inr assms show ?thesis by (simp add: backup_created_eq)
  next
    case False
    with Inr assms show ?thesis by (simp add: backup_created_def)
  qed
qed

lemma report_trace: "trace (report full cf w) = trace w"
  by (simp add: report_def)

lemma generate_mod_try_named:
  assumes "strip (folder_name_var self) \<noteq> []" and "strip (file_name_var self) \<noteq> []"
  shows "generate_mod_try os self w =
     bind (scaffold os self (strip (folder_name_var self)) (strip (file_name_var self)) w)
       (\<lambda>(w, full_folder_path, created_files).
          bind (backup_created os full_folder_path created_files w)
            (\<lambda>w. Inr (report full_folder_path created_files w, created_files)))"
  using assms by (simp add: generate_mod_try_def Let_def)

lemma generate_mod_try_Inr:
  assumes "strip (folder_name_var self) \<noteq> []" and "strip (file_name_var self) \<noteq> []"
    and "generate_mod_try os self w = Inr (w', cf)"
  shows "\<exists>w1 full w2.
           scaffold os self (strip (folder_name_var self)) (strip (file_name_var self)) w
             = Inr (w1, full, cf)
         \<and> backup_created os full cf w1 = Inr w2
         \<and> w' = report full cf w2"
proof -
  let ?sc = "scaffold os self (strip (folder_name_var self)) (strip (file_name_var self)) w"
  note eq = assms(3) [unfolded generate_mod_try_named [OF assms(1,2)]]
  then obtain x where sc: "?sc = Inr x"
    by (cases ?sc) (auto simp: bind_def)
  obtain w1 full cf1 where x: "x = (w1, full, cf1)" by (cases x)
  from eq sc x have eq1: "bind (backup_created os full cf1 w1)
      (\<lambda>w. Inr (report full cf1 w, cf1)) = Inr (w', cf)"
    by (simp add: bind_def)
  then obtain w2 where bk: "backup_created os full cf1 w1 = Inr w2"
    by (cases "backup_created os full cf1 w1") (auto simp: bind_def)
  with eq1 have "w' = report full cf1 w2" "cf = cf1" by (auto simp: bind_def)
  with sc x bk show ?thesis by auto
qed


lemma scaffold_succeeds:
  assumes F: "apply_naming_rules w folder_name True = Inr F"
    and N: "apply_naming_rules w file_name False = Inr N"
    and s: "map_of (settings_data w) (str ''main_mods_folder'') = Some s"
    and R: "deref (objs w) s = JStr R"
    and free: "\<And>tr c. \<not> fails os tr c"
  shows "\<exists>w1 cf. scaffold os self folder_name file_name w = Inr (w1, path_join os R F, cf)"
  by (simp add: scaffold_eq [OF F N s R] create_modinfo_py_def create_selected_def
      create_types_def create_init_py_def create_script_def create_tuning_def
      create_package_def write_and_record_eq fs_call_def bind_def free Let_def
      apply_naming_rules_trace N)

lemma generate_mod_succeeds:
  assumes named: "strip (folder_name_var self) \<noteq> []" "strip (file_name_var self) \<noteq> []"
    and F: "apply_naming_rules w (strip (folder_name_var self)) True = Inr F"
    and N: "apply_naming_rules w (strip (file_name_var self)) False = Inr N"
    and s: "map_of (settings_data w) (str ''main_mods_folder'') = Some s"
    and R: "deref (objs w) s = JStr R"
    and b: "backup_always w = Inr b"
    and free: "\<And>tr c. \<not> fails os tr c"
  shows "\<exists>w' cf. generate_mod_try os self w = Inr (w', cf)"
proof -
  from scaffold_succeeds [OF F N s R free, of self]
  obtain w1 cf where sc:
    "scaffold os self (strip (folder_name_var self)) (strip (file_name_var self)) w
       = Inr (w1, path_join os R F, cf)"
    by blast
  from scaffold_Inr [OF sc F N s R] obtain calls where "w1 = w\<lparr>trace := trace w @ calls\<rparr>"
    by blast
  then have "backup_always w1 = Inr b" by (simp add: backup_always_trace b)
  then obtain w2 where "backup_created os (path_join os R F) cf w1 = Inr w2"
    by (cases b) (simp_all add: backup_created_eq, simp add: backup_created_def)
  with sc show ?thesis
    by (simp add: generate_mod_try_named [OF named] bind_def)
qed

subsection \<open>The generated files\<close>

lemma filter_plain: "list_all (\<lambda>c. \<not> is_marker c) calls \<Longrightarrow> filter is_marker calls = []"
  by (simp add: list_all_iff)

lemma filter_marker_calls:
  "filter is_marker (marker_calls os full flag) = [WriteText (marker_path os full flag) init_text]"
  by (simp add: marker_calls_def)

text \<open>
  Claim C3. For names that are non-empty after \<open>strip()\<close>, in every generation that
  completes, among the file-system calls it made there is a write of the package marker
  exactly when \<open>all_var\<close> or \<open>script_var\<close> is set or the \<open>init_py_in_scripts\<close> setting is
  true, and then exactly one: to \<open>__init__.py\<close> inside the \<open>Scripts\<close> subdirectory of the
  target directory (which is created) when the setting is true, otherwise to
  \<open>__init__.py\<close> directly in the target directory; its path is in \<open>created_files\<close>.
  A generation does complete when the settings it reads are readable and no file-system
  call fails.
\<close>

theorem package_marker_iff:
  fixes os :: platform and self :: app and w :: world
  defines "flag \<equiv> get_flag w (str ''init_py_in_scripts'')"
  defines "marked \<equiv> all_var self \<or> script_var self \<or> flag"
  assumes "strip (folder_name_var self) \<noteq> []" and "strip (file_name_var self) \<noteq> []"
  shows "(\<forall>w' cf. generate_mod_try os self w = Inr (w', cf) \<longrightarrow>
           (\<exists>F s R. apply_naming_rules w (strip (folder_name_var self)) True = Inr F
              \<and> map_of (settings_data w) (str ''main_mods_folder'') = Some s
              \<and> deref (objs w) s = JStr R
              \<and> filter is_marker (drop (length (trace w)) (trace w'))
                  = (if marked
                     then [WriteText
                            (if flag
                             then path_join os (path_join os (path_join os R F) (str ''Scripts''))
                                    (str ''__init__.py'')
                             else path_join os (path_join os R F) (str ''__init__.py''))
                            init_text]
                     else [])
              \<and> (marked \<longrightarrow>
                    (if flag
                     then path_join os (path_join os (path_join os R F) (str ''Scripts''))
                            (str ''__init__.py'')
                     else path_join os (path_join os R F) (str ''__init__.py'')) \<in> set cf)
              \<and> (marked \<and> flag \<longrightarrow>
                    MakeDirs (path_join os (path_join os R F) (str ''Scripts'')) \<in> set (trace w'))))
       \<and> ((\<forall>tr c. \<not> fails os tr c)
            \<and> (\<exists>F. apply_naming_rules w (strip (folder_name_var self)) True = Inr F)
            \<and> (\<exists>N. apply_naming_rules w (strip (file_name_var self)) False = Inr N)
            \<and> (\<exists>s R. map_of (settings_data w) (str ''main_mods_folder'') = Some s
                       \<and> deref (objs w) s = JStr R)
            \<and> (\<exists>b. backup_always w = Inr b)
          \<longrightarrow> (\<exists>w' cf. generate_mod_try os self w = Inr (w', cf)))"
proof (intro conjI allI impI)
  fix w' cf
  assume run: "generate_mod_try os self w = Inr (w', cf)"
  from generate_mod_try_Inr [OF assms(3,4) run] obtain w1 full w2 where
    sc: "scaffold os self (strip (folder_name_var self)) (strip (file_name_var self)) w
           = Inr (w1, full, cf)"
    and bk: "backup_created os full cf w1 = Inr w2"
    and w': "w' = report full cf w2"
    by blast
  from scaffold_reads [OF sc] obtain F N s R where
    F: "apply_naming_rules w (strip (folder_name_var self)) True = Inr F"
    and N: "apply_naming_rules w (strip (file_name_var self)) False = Inr N"
    and s: "map_of (settings_data w) (str ''main_mods_folder'') = Some s"
    and R: "deref (objs w) s = JStr R"
    by blast
  from scaffold_Inr [OF sc F N s R, folded flag_def, folded marked_def]
  obtain calls paths where full: "full = path_join os R F"
    and w1: "w1 = w\<lparr>trace := trace w
                     @ [MakeDirs full,
                        WriteText (path_join os full (str ''modinfo.py'')) (modinfo_text N)]
                     @ (if marked then marker_calls os full flag else []) @ calls\<rparr>"
    and plain: "list_all (\<lambda>c. \<not> is_marker c) calls"
    and cf: "cf = [path_join os full (str ''modinfo.py'')]
                 @ (if marked then [marker_path os full flag] else []) @ paths"
    by blast
  from backup_created_Inr [OF bk] obtain calls' where
    w2: "trace w2 = trace w1 @ calls'" and plain': "list_all (\<lambda>c. \<not> is_marker c) calls'"
    by blast
  have tr: "trace w' = trace w
              @ ([MakeDirs full,
                  WriteText (path_join os full (str ''modinfo.py'')) (modinfo_text N)]
                 @ (if marked then marker_calls os full flag else []) @ calls @ calls')"
    by (simp add: w' report_trace w2 w1)
  have new: "filter is_marker (drop (length (trace w)) (trace w'))
             = (if marked then [WriteText (marker_path os full flag) init_text] else [])"
    unfolding tr
    by (simp add: filter_plain [OF plain] filter_plain [OF plain'] filter_marker_calls
        texts_differ)
  have listed: "marked \<longrightarrow> marker_path os full flag \<in> set cf"
    by (simp add: cf)
  have dir: "marked \<and> flag \<longrightarrow> MakeDirs (path_join os full (str ''Scripts'')) \<in> set (trace w')"
    unfolding tr by (simp add: marker_calls_def)
  from new listed dir
  show "\<exists>F s R. apply_naming_rules w (strip (folder_name_var self)) True = Inr F
              \<and> map_of (settings_data w) (str ''main_mods_folder'') = Some s
              \<and> deref (objs w) s = JStr R
              \<and> filter is_marker (drop (length (trace w)) (trace w'))
                  = (if marked
                     then [WriteText
                            (if flag
                             then path_join os (path_join os (path_join os R F) (str ''Scripts''))
                                    (str ''__init__.py'')
                             else path_join os (path_join os R F) (str ''__init__.py''))
                            init_text]
                     else [])
              \<and> (marked \<longrightarrow>
                    (if flag
                     then path_join os (path_join os (path_join os R F) (str ''Scripts''))
                            (str ''__init__.py'')
                     else path_join os (path_join os R F) (str ''__init__.py'')) \<in> set cf)
              \<and> (marked \<and> flag \<longrightarrow>
                    MakeDirs (path_join os (path_join os R F) (str ''Scripts'')) \<in> set (trace w'))"
    using F s R unfolding full marker_path_def by blast
next
  assume free: "(\<forall>tr c. \<not> fails os tr c)
            \<and> (\<exists>F. apply_naming_rules w (strip (folder_name_var self)) True = Inr F)
            \<and> (\<exists>N. apply_naming_rules w (strip (file_name_var self)) False = Inr N)
            \<and> (\<exists>s R. map_of (settings_data w) (str ''main_mods_folder'') = Some s
                       \<and> deref (objs w) s = JStr R)
            \<and> (\<exists>b. backup_always w = Inr b)"
  then obtain F N s R b where
    "apply_naming_rules w (strip (folder_name_var self)) True = Inr F"
    "apply_naming_rules w (strip (file_name_var self)) False = Inr N"
    "map_of (settings_data w) (str ''main_mods_folder'') = Some s"
    "deref (objs w) s = JStr R" "backup_always w = Inr b" "\<And>tr c. \<not> fails os tr c"
    by blast
  then show "\<exists>w' cf. generate_mod_try os self w = Inr (w', cf)"
    by (rule generate_mod_succeeds [OF assms(3,4)])
qed

text \<open>
  Claim C4. For names that are non-empty after \<open>strip()\<close> and settings whose naming
  rules and mods folder can be read, once the target directory and the file
  \<open>modinfo.py\<close> in it can be created, \<open>generate_mod\<close> creates them first, whatever boxes
  are ticked and whatever happens afterwards; when the generation completes the file's
  path is the first entry of \<open>created_files\<close>, which therefore is not empty; and the
  text written is five lines: \<open>modinfo = {\<close>, the \<open>"Name"\<close> entry with the cleaned file
  name, the \<open>"Author"\<close> entry with the placeholder \<open>YourNameHere\<close>, the \<open>"Version"\<close>
  entry with \<open>1.0\<close>, and the closing brace.
\<close>

theorem modinfo_always_created:
  fixes os :: platform and self :: app and w :: world
  defines "target \<equiv> \<lambda>R F. path_join os R F"
  assumes "strip (folder_name_var self) \<noteq> []" and "strip (file_name_var self) \<noteq> []"
    and F: "apply_naming_rules w (strip (folder_name_var self)) True = Inr F"
    and N: "apply_naming_rules w (strip (file_name_var self)) False = Inr N"
    and s: "map_of (settings_data w) (str ''main_mods_folder'') = Some s"
    and R: "deref (objs w) s = JStr R"
    and mk: "\<not> fails os (trace w) (MakeDirs (target R F))"
    and wr: "\<not> fails os (trace w @ [MakeDirs (target R F)])
               (WriteText (path_join os (target R F) (str ''modinfo.py'')) (modinfo_text N))"
  shows \<open>(\<exists>rest. trace (generate_mod os self w)
            = trace w @ [MakeDirs (target R F),
                         WriteText (path_join os (target R F) (str ''modinfo.py''))
                           (modinfo_text N)] @ rest)
       \<and> (\<forall>w' cf. generate_mod_try os self w = Inr (w', cf)
            \<longrightarrow> cf \<noteq> [] \<and> hd cf = path_join os (target R F) (str ''modinfo.py''))
       \<and> modinfo_text N
           = unlines [str ''modinfo = {'',
                      str ''    "Name": "'' @ N @ str ''",'',
                      str ''    "Author": "YourNameHere",'',
                      str ''    "Version": "1.0",'',
                      str ''}'']\<close>
proof -
  have content: \<open>modinfo_text N
           = unlines [str ''modinfo = {'',
                      str ''    "Name": "'' @ N @ str ''",'',
                      str ''    "Author": "YourNameHere",'',
                      str ''    "Version": "1.0",'',
                      str ''}'']\<close>
    by (simp add: modinfo_text_def unlines_def)
  let ?full = "path_join os R F"
  let ?mp = "path_join os ?full (str ''modinfo.py'')"
  let ?two = "[MakeDirs ?full, WriteText ?mp (modinfo_text N)]"
  let ?w2 = "w\<lparr>trace := trace w @ ?two\<rparr>"
  let ?sel = "create_selected os self ?full (strip (file_name_var self)) (?w2, [?mp])"
  let ?after = "\<lambda>(w, full_folder_path, created_files).
          bind (backup_created os full_folder_path created_files w)
            (\<lambda>w. Inr (report full_folder_path created_files w, created_files))"
  have sc: "scaffold os self (strip (folder_name_var self)) (strip (file_name_var self)) w
            = bind ?sel (\<lambda>(w, created_files). Inr (w, ?full, created_files))"
    using mk wr
    by (simp add: scaffold_eq [OF F N s R] target_def fs_call_def bind_def
        create_modinfo_py_def write_and_record_eq Let_def)
  have gen: "generate_mod_try os self w
             = bind (bind ?sel (\<lambda>(w, created_files). Inr (w, ?full, created_files))) ?after"
    by (simp add: generate_mod_try_named [OF assms(2,3)] sc)
  have ok: "step_ok (\<lambda>c. True) ?w2 [?mp] ?sel"
    by (rule step_ok_create_selected) simp
  have "(\<exists>rest. trace (generate_mod os self w) = trace w @ ?two @ rest)
       \<and> (\<forall>w' cf. generate_mod_try os self w = Inr (w', cf) \<longrightarrow> cf \<noteq> [] \<and> hd cf = ?mp)"
  proof (cases ?sel)
    case (Inl a)
    obtain e w3 where a: "a = (e, w3)" by (cases a)
    from ok Inl a obtain calls where "w3 = ?w2\<lparr>trace := trace ?w2 @ calls\<rparr>"
      by (auto simp: step_ok_def)
    then have "trace w3 = trace w @ ?two @ calls" by simp
    moreover have "generate_mod_try os self w = Inl (e, w3)"
      by (simp add: gen Inl a bind_def)
    ultimately show ?thesis
      by (simp add: generate_mod_def safe_operation_def)
  next
    case (Inr b)
    obtain w3 cf3 where b: "b = (w3, cf3)" by (cases b)
    from ok Inr b obtain calls paths where
      w3: "w3 = ?w2\<lparr>trace := trace ?w2 @ calls\<rparr>" and cf3: "cf3 = [?mp] @ paths"
      by (auto simp: step_ok_def)
    from w3 have tr3: "trace w3 = trace w @ ?two @ calls" by simp
    have gen3: "generate_mod_try os self w
                = bind (backup_created os ?full cf3 w3) (\<lambda>w. Inr (report ?full cf3 w, cf3))"
      by (simp add: gen Inr b bind_def)
    show ?thesis
    proof (cases "backup_created os ?full cf3 w3")
      case bl: (Inl c)
      obtain e w4 where c: "c = (e, w4)" by (cases c)
      from bl c have "w4 = w3" by (auto dest: backup_created_Inl)
      with bl c have "generate_mod_try os self w = Inl (e, w3)"
        by (simp add: gen3 bind_def)
      with tr3 show ?thesis
        by (simp add: generate_mod_def safe_operation_def)
    next
      case br: (Inr w4)
      from backup_created_Inr [OF br] obtain calls' where "trace w4 = trace w3 @ calls'"
        by blast
      with tr3 have "trace (report ?full cf3 w4) = trace w @ ?two @ (calls @ calls')"
        by (simp add: report_trace)
      moreover have "generate_mod_try os self w = Inr (report ?full cf3 w4, cf3)"
        by (simp add: gen3 br bind_def)
      ultimately show ?thesis
        using cf3 by (simp add: generate_mod_def safe_operation_def)
    qed
  qed
  with content show ?thesis by (simp add: target_def)
qed

text \<open>
  Claim C9. When the files of a generation have been created and \<open>always_backup\<close> is
  true, the list of created files is not empty, and the generation completes without an
  exception: it calls \<open>os.makedirs\<close> (with \<open>exist_ok=True\<close>) on the target directory's
  path followed by \<open>_Backup\<close> and then copies each created file, in order, to its base
  name directly inside that folder. The calls stop at the first one that fails, and then a
  warning dialog is shown; the generation goes on to its report either way. When no call
  fails, all of them are made.
\<close>

theorem backup_copies_created_files:
  fixes os :: platform and self :: app and w :: world
  defines "performed \<equiv> \<lambda>w1 full cf. permitted_prefix os (trace w1) (backup_calls os full cf)"
  assumes "strip (folder_name_var self) \<noteq> []" and "strip (file_name_var self) \<noteq> []"
    and sc: "scaffold os self (strip (folder_name_var self)) (strip (file_name_var self)) w
               = Inr (w1, full, cf)"
    and always: "backup_always w = Inr True"
  shows "cf \<noteq> []
       \<and> backup_calls os full cf
           = MakeDirs (full @ str ''_Backup'')
             # map (\<lambda>fpath. CopyFile fpath
                      (path_join os (full @ str ''_Backup'') (path_basename os fpath))) cf
       \<and> generate_mod_try os self w
           = Inr (report full cf
                    (w1\<lparr>trace := trace w1 @ performed w1 full cf,
                        dialogs := dialogs w1 @
                          (if performed w1 full cf = backup_calls os full cf then []
                           else [BackupWarning OSError])\<rparr>), cf)
       \<and> ((\<forall>tr c. \<not> fails os tr c) \<longrightarrow> performed w1 full cf = backup_calls os full cf)"
proof -
  from scaffold_reads [OF sc] obtain F N s R where
    F: "apply_naming_rules w (strip (folder_name_var self)) True = Inr F"
    and N: "apply_naming_rules w (strip (file_name_var self)) False = Inr N"
    and s: "map_of (settings_data w) (str ''main_mods_folder'') = Some s"
    and R: "deref (objs w) s = JStr R"
    by blast
  from scaffold_Inr [OF sc F N s R] obtain calls paths where
    w1: "w1 = w\<lparr>trace := trace w @ calls\<rparr>"
    and cf: "cf = [path_join os full (str ''modinfo.py'')] @ paths"
    by blast
  from w1 always have "backup_always w1 = Inr True"
    by (simp add: backup_always_trace)
  then have "generate_mod_try os self w
           = Inr (report full cf
                    (w1\<lparr>trace := trace w1 @ performed w1 full cf,
                        dialogs := dialogs w1 @
                          (if performed w1 full cf = backup_calls os full cf then []
                           else [BackupWarning OSError])\<rparr>), cf)"
    by (simp add: generate_mod_try_named [OF assms(2,3)] sc bind_def backup_created_eq
        performed_def)
  moreover have "permitted_prefix os tr cs = cs" if "\<forall>tr c. \<not> fails os tr c" for tr cs
    using that by (induction cs arbitrary: tr) simp_all
  ultimately show ?thesis
    using cf by (simp add: performed_def backup_calls_def)
qed

subsection \<open>The example request\<close>

lemma example_names:
  "strip (folder_name_var example_request) = str ''Test Mod''"
  "strip (file_name_var example_request) = str ''Test File''"
  by (simp_all add: example_request_def strip_def str_def isspace_def)

lemma example_named:
  "strip (folder_name_var example_request) \<noteq> []"
  "strip (file_name_var example_request) \<noteq> []"
  by (simp_all add: example_names) (simp_all add: str_def)

lemma init_rules:
  "naming_rule (init_world folder) (str ''no_spaces_folders'') = Inr False"
  "naming_rule (init_world folder) (str ''no_spaces_files'') = Inr False"
  "naming_rule (init_world folder) (str ''convert_spaces_underscores'') = Inr False"
  by (simp_all add: naming_rule_def init_world_def DEFAULT_SETTINGS_def default_objs_def
      deref_def str_def)

lemma init_apply: "apply_naming_rules (init_world folder) name is_folder = Inr name"
  by (simp add: apply_naming_rules_reference [OF init_rules] reference_rules_def)

lemma init_main:
  "map_of (settings_data (init_world folder)) (str ''main_mods_folder'') = Some (Val (JStr folder))"
  "deref (objs (init_world folder)) (Val (JStr folder)) = JStr folder"
  by (simp_all add: init_world_def DEFAULT_SETTINGS_def deref_def str_def)

lemma init_flags:
  "get_flag (init_world folder) (str ''init_py_in_scripts'')"
  "get_flag (init_world folder) (str ''show_open_location_prompt'')"
  "backup_always (init_world folder) = Inr True"
  by (simp_all add: get_flag_def backup_always_def init_world_def DEFAULT_SETTINGS_def
      default_objs_def deref_def str_def)

lemma example_paths:
  "posix_join (str ''/Mods'') (str ''Test Mod'') = str ''/Mods/Test Mod''"
  "posix_join (str ''/Mods/Test Mod'') (str ''modinfo.py'') = str ''/Mods/Test Mod/modinfo.py''"
  "posix_join (str ''/Mods/Test Mod'') (str ''Scripts'') = str ''/Mods/Test Mod/Scripts''"
  "posix_join (str ''/Mods/Test Mod/Scripts'') (str ''__init__.py'')
     = str ''/Mods/Test Mod/Scripts/__init__.py''"
  "posix_join (str ''/Mods/Test Mod'') (str ''Test File'' @ str ''.package'')
     = str ''/Mods/Test Mod/Test File.package''"
  by (simp_all add: posix_join_def str_def)

lemma example_scaffold:
  assumes "path_join os = posix_join"
    and "\<And>tr c. \<not> is_copy c \<Longrightarrow> \<not> fails os tr c"
  shows "scaffold os example_request (str ''Test Mod'') (str ''Test File'')
           (init_world (str ''/Mods''))
         = Inr ((init_world (str ''/Mods''))
                  \<lparr>trace := [MakeDirs (str ''/Mods/Test Mod''),
                             WriteText (str ''/Mods/Test Mod/modinfo.py'')
                               (modinfo_text (str ''Test File'')),
                             MakeDirs (str ''/Mods/Test Mod/Scripts''),
                             WriteText (str ''/Mods/Test Mod/Scripts/__init__.py'') init_text,
                             WriteBytes (str ''/Mods/Test Mod/Test File.package'') []]\<rparr>,
                str ''/Mods/Test Mod'',
                [str ''/Mods/Test Mod/modinfo.py'', str ''/Mods/Test Mod/Scripts/__init__.py'',
                 str ''/Mods/Test Mod/Test File.package''])"
proof -
  have t: "trace (init_world (str ''/Mods'')) = []" by (simp add: init_world_def)
  show ?thesis
    by (simp add: scaffold_eq [OF init_apply init_apply init_main] assms example_paths
        fs_call_def bind_def create_modinfo_py_def create_selected_def create_types_def
        create_init_py_def create_package_def write_and_record_eq Let_def
        example_request_def get_flag_trace init_flags apply_naming_rules_trace init_apply t)
qed

lemma permissive_simps:
  "path_join permissive = posix_join" "path_basename permissive = posix_basename"
  "\<not> fails permissive tr c"
  by (simp_all add: permissive_def posix_def)

lemma copyfile_denied_simps:
  "path_join copyfile_denied = posix_join" "path_basename copyfile_denied = posix_basename"
  "fails copyfile_denied tr c = is_copy c"
  by (simp_all add: copyfile_denied_def posix_def)

theorem package_marker_iff_witness:
  "strip (folder_name_var example_request) \<noteq> []
   \<and> strip (file_name_var example_request) \<noteq> []
   \<and> (\<exists>w' cf. generate_mod_try permissive example_request (init_world (str ''/Mods''))
                  = Inr (w', cf)
         \<and> filter is_marker (drop (length (trace (init_world (str ''/Mods'')))) (trace w'))
             = [WriteText (str ''/Mods/Test Mod/Scripts/__init__.py'') init_text]
         \<and> str ''/Mods/Test Mod/Scripts/__init__.py'' \<in> set cf)"
proof -
  let ?w = "init_world (str ''/Mods'')"
  note T = package_marker_iff [OF example_named, of permissive ?w]
  have "\<exists>b. backup_always ?w = Inr b" by (rule exI [of _ True]) (simp add: init_flags)
  with T obtain w' cf where run: "generate_mod_try permissive example_request ?w = Inr (w', cf)"
    using init_apply [of "str ''/Mods''"] init_main [of "str ''/Mods''"]
    by (auto simp: permissive_simps)
  with T obtain F s R where
    F: "apply_naming_rules ?w (strip (folder_name_var example_request)) True = Inr F"
    and s: "map_of (settings_data ?w) (str ''main_mods_folder'') = Some s"
    and R: "deref (objs ?w) s = JStr R"
    and m: "filter is_marker (drop (length (trace ?w)) (trace w'))
            = [WriteText (posix_join (posix_join (posix_join R F) (str ''Scripts''))
                  (str ''__init__.py'')) init_text]"
    and c: "posix_join (posix_join (posix_join R F) (str ''Scripts'')) (str ''__init__.py'')
            \<in> set cf"
    by (auto simp: permissive_simps init_flags)
  from F have "F = str ''Test Mod''" by (simp add: init_apply example_names)
  moreover from s R have "R = str ''/Mods''" by (auto simp: init_main deref_def)
  ultimately show ?thesis
    using run m c example_named by (auto simp: example_paths)
qed

theorem modinfo_always_created_witness:
  "strip (folder_name_var example_request) \<noteq> []
   \<and> strip (file_name_var example_request) \<noteq> []
   \<and> apply_naming_rules (init_world (str ''/Mods'')) (strip (folder_name_var example_request)) True
       = Inr (str ''Test Mod'')
   \<and> apply_naming_rules (init_world (str ''/Mods'')) (strip (file_name_var example_request)) False
       = Inr (str ''Test File'')
   \<and> map_of (settings_data (init_world (str ''/Mods''))) (str ''main_mods_folder'')
       = Some (Val (JStr (str ''/Mods'')))
   \<and> \<not> fails permissive (trace (init_world (str ''/Mods''))) (MakeDirs (str ''/Mods/Test Mod''))
   \<and> (\<exists>rest. trace (generate_mod permissive example_request (init_world (str ''/Mods'')))
         = [MakeDirs (str ''/Mods/Test Mod''),
            WriteText (str ''/Mods/Test Mod/modinfo.py'') (modinfo_text (str ''Test File''))]
           @ rest)
   \<and> modinfo_text (str ''Test File'')
       = unlines [str ''modinfo = {'', [32, 32, 32, 32, 34] @ str ''Name'' @ [34, 58, 32, 34]
                    @ str ''Test File'' @ [34, 44],
                  [32, 32, 32, 32, 34] @ str ''Author'' @ [34, 58, 32, 34]
                    @ str ''YourNameHere'' @ [34, 44],
                  [32, 32, 32, 32, 34] @ str ''Version'' @ [34, 58, 32, 34]
                    @ str ''1.0'' @ [34, 44],
                  str ''}'']"
proof -
  let ?w = "init_world (str ''/Mods'')"
  have F: "apply_naming_rules ?w (strip (folder_name_var example_request)) True
           = Inr (str ''Test Mod'')"
    and N: "apply_naming_rules ?w (strip (file_name_var example_request)) False
           = Inr (str ''Test File'')"
    by (simp_all add: init_apply example_names)
  have t: "trace ?w = []" by (simp add: init_world_def)
  note T = modinfo_always_created [OF example_named F N init_main, of permissive,
      OF permissive_simps(3) permissive_simps(3)]
  have tr: "\<exists>rest. trace (generate_mod permissive example_request ?w)
         = [MakeDirs (str ''/Mods/Test Mod''),
            WriteText (str ''/Mods/Test Mod/modinfo.py'') (modinfo_text (str ''Test File''))]
           @ rest"
    using T [THEN conjunct1] by (simp add: permissive_simps example_paths t)
  have content: "modinfo_text (str ''Test File'')
       = unlines [str ''modinfo = {'', [32, 32, 32, 32, 34] @ str ''Name'' @ [34, 58, 32, 34]
                    @ str ''Test File'' @ [34, 44],
                  [32, 32, 32, 32, 34] @ str ''Author'' @ [34, 58, 32, 34]
                    @ str ''YourNameHere'' @ [34, 44],
                  [32, 32, 32, 32, 34] @ str ''Version'' @ [34, 58, 32, 34]
                    @ str ''1.0'' @ [34, 44],
                  str ''}'']"
    using T [THEN conjunct2, THEN conjunct2] by (simp add: str_def)
  from tr content F N example_named init_main(1) [of "str ''/Mods''"] permissive_simps(3)
  show ?thesis by blast
qed

lemma example_basenames:
  "posix_basename (str ''/Mods/Test Mod/modinfo.py'') = str ''modinfo.py''"
  "posix_basename (str ''/Mods/Test Mod/Scripts/__init__.py'') = str ''__init__.py''"
  "posix_basename (str ''/Mods/Test Mod/Test File.package'') = str ''Test File.package''"
  by (simp_all add: str_def)

lemma example_backup_paths:
  "str ''/Mods/Test Mod'' @ str ''_Backup'' = str ''/Mods/Test Mod_Backup''"
  "posix_join (str ''/Mods/Test Mod_Backup'') (str ''modinfo.py'')
     = str ''/Mods/Test Mod_Backup/modinfo.py''"
  "posix_join (str ''/Mods/Test Mod_Backup'') (str ''__init__.py'')
     = str ''/Mods/Test Mod_Backup/__init__.py''"
  "posix_join (str ''/Mods/Test Mod_Backup'') (str ''Test File.package'')
     = str ''/Mods/Test Mod_Backup/Test File.package''"
  by (simp_all add: posix_join_def str_def)

lemma get_flag_fields:
  "get_flag (w\<lparr>trace := t, dialogs := d\<rparr>) key = get_flag w key"
  by (simp add: get_flag_def cong: option.case_cong)

theorem backup_copies_created_files_witness:
  "strip (folder_name_var example_request) \<noteq> []
   \<and> strip (file_name_var example_request) \<noteq> []
   \<and> backup_always (init_world (str ''/Mods'')) = Inr True
   \<and> (\<exists>w1 w'.
         scaffold permissive example_request (strip (folder_name_var example_request))
           (strip (file_name_var example_request)) (init_world (str ''/Mods''))
         = Inr (w1, str ''/Mods/Test Mod'',
                [str ''/Mods/Test Mod/modinfo.py'', str ''/Mods/Test Mod/Scripts/__init__.py'',
                 str ''/Mods/Test Mod/Test File.package''])
       \<and> generate_mod_try permissive example_request (init_world (str ''/Mods''))
         = Inr (w', [str ''/Mods/Test Mod/modinfo.py'', str ''/Mods/Test Mod/Scripts/__init__.py'',
                     str ''/Mods/Test Mod/Test File.package''])
       \<and> trace w' = trace w1 @
           [MakeDirs (str ''/Mods/Test Mod_Backup''),
            CopyFile (str ''/Mods/Test Mod/modinfo.py'') (str ''/Mods/Test Mod_Backup/modinfo.py''),
            CopyFile (str ''/Mods/Test Mod/Scripts/__init__.py'')
              (str ''/Mods/Test Mod_Backup/__init__.py''),
            CopyFile (str ''/Mods/Test Mod/Test File.package'')
              (str ''/Mods/Test Mod_Backup/Test File.package'')]
       \<and> dialogs w' = [OpenLocationPrompt (str ''/Mods/Test Mod'')])
   \<and> (\<exists>w1 w'.
         scaffold copyfile_denied example_request (strip (folder_name_var example_request))
           (strip (file_name_var example_request)) (init_world (str ''/Mods''))
         = Inr (w1, str ''/Mods/Test Mod'',
                [str ''/Mods/Test Mod/modinfo.py'', str ''/Mods/Test Mod/Scripts/__init__.py'',
                 str ''/Mods/Test Mod/Test File.package''])
       \<and> generate_mod_try copyfile_denied example_request (init_world (str ''/Mods''))
         = Inr (w', [str ''/Mods/Test Mod/modinfo.py'', str ''/Mods/Test Mod/Scripts/__init__.py'',
                     str ''/Mods/Test Mod/Test File.package''])
       \<and> trace w' = trace w1 @ [MakeDirs (str ''/Mods/Test Mod_Backup'')]
       \<and> dialogs w' = [BackupWarning OSError, OpenLocationPrompt (str ''/Mods/Test Mod'')])"
proof -
  let ?w = "init_world (str ''/Mods'')"
  let ?cf = "[str ''/Mods/Test Mod/modinfo.py'', str ''/Mods/Test Mod/Scripts/__init__.py'',
              str ''/Mods/Test Mod/Test File.package'']"
  have d: "dialogs ?w = []" by (simp add: init_world_def)
  have sc1: "\<exists>w1. scaffold permissive example_request (strip (folder_name_var example_request))
           (strip (file_name_var example_request)) ?w = Inr (w1, str ''/Mods/Test Mod'', ?cf)"
    by (simp add: example_names example_scaffold permissive_simps)
  have sc2: "\<exists>w1. scaffold copyfile_denied example_request
           (strip (folder_name_var example_request))
           (strip (file_name_var example_request)) ?w = Inr (w1, str ''/Mods/Test Mod'', ?cf)"
    by (simp add: example_names example_scaffold copyfile_denied_simps)
  from sc1 obtain w1 where w1: "scaffold permissive example_request
      (strip (folder_name_var example_request)) (strip (file_name_var example_request)) ?w
      = Inr (w1, str ''/Mods/Test Mod'', ?cf)" by blast
  from sc2 obtain w2 where w2: "scaffold copyfile_denied example_request
      (strip (folder_name_var example_request)) (strip (file_name_var example_request)) ?w
      = Inr (w2, str ''/Mods/Test Mod'', ?cf)" by blast
  have dw1: "dialogs w1 = []" and dw2: "dialogs w2 = []"
    using w1 w2 d
    by (simp_all add: example_names example_scaffold permissive_simps copyfile_denied_simps)
      auto
  have f1: "get_flag w1 (str ''show_open_location_prompt'')"
    and f2: "get_flag w2 (str ''show_open_location_prompt'')"
    using w1 w2
    by (simp_all add: example_names example_scaffold permissive_simps copyfile_denied_simps)
      (auto simp: get_flag_trace init_flags)
  note A = backup_copies_created_files [OF example_named w1 init_flags(3)]
  note B = backup_copies_created_files [OF example_named w2 init_flags(3)]
  have a: "permitted_prefix permissive (trace w1)
             (backup_calls permissive (str ''/Mods/Test Mod'') ?cf)
           = backup_calls permissive (str ''/Mods/Test Mod'') ?cf"
    using A by (simp add: permissive_simps)
  have b: "permitted_prefix copyfile_denied (trace w2)
             (backup_calls copyfile_denied (str ''/Mods/Test Mod'') ?cf)
           = [MakeDirs (str ''/Mods/Test Mod_Backup'')]"
    by (simp add: backup_calls_def copyfile_denied_simps example_backup_paths)
  have calls: "backup_calls permissive (str ''/Mods/Test Mod'') ?cf =
           [MakeDirs (str ''/Mods/Test Mod_Backup''),
            CopyFile (str ''/Mods/Test Mod/modinfo.py'') (str ''/Mods/Test Mod_Backup/modinfo.py''),
            CopyFile (str ''/Mods/Test Mod/Scripts/__init__.py'')
              (str ''/Mods/Test Mod_Backup/__init__.py''),
            CopyFile (str ''/Mods/Test Mod/Test File.package'')
              (str ''/Mods/Test Mod_Backup/Test File.package'')]"
    by (simp add: backup_calls_def permissive_simps example_basenames example_backup_paths)
  have ne: "backup_calls copyfile_denied (str ''/Mods/Test Mod'') ?cf
            \<noteq> [MakeDirs (str ''/Mods/Test Mod_Backup'')]"
    by (simp add: backup_calls_def)
  from A have "\<exists>w'. generate_mod_try permissive example_request ?w = Inr (w', ?cf)
       \<and> trace w' = trace w1 @ backup_calls permissive (str ''/Mods/Test Mod'') ?cf
       \<and> dialogs w' = [OpenLocationPrompt (str ''/Mods/Test Mod'')]"
    by (simp add: a report_def get_flag_fields f1 dw1)
  moreover
  from B have "\<exists>w'. generate_mod_try copyfile_denied example_request ?w = Inr (w', ?cf)
       \<and> trace w' = trace w2 @ [MakeDirs (str ''/Mods/Test Mod_Backup'')]
       \<and> dialogs w' = [BackupWarning OSError, OpenLocationPrompt (str ''/Mods/Test Mod'')]"
    by (simp add: b ne report_def get_flag_fields f2 dw2)
  ultimately show ?thesis
    using w1 w2 example_named init_flags(3) [of "str ''/Mods''"] unfolding calls by blast
qed

end
